theory Spec2Isabelle
  imports Main "HOL-Library.Word" "HOL-Library.AList"
begin

unbundle bit_operations_syntax

section \<open>Machine integers, bytes and instants\<close>

text \<open>
  Go's \<open>int64\<close> is a 64-bit word read in two's complement: \<open>+\<close> and \<open>-\<close> wrap, the
  comparisons of the source are the signed ones (\<open>\<le>s\<close>, \<open><s\<close>). \<open>time.Duration\<close> is
  an \<open>int64\<close> count of nanoseconds. A \<open>time.Time\<close> is modelled by the number of
  nanoseconds since the zero instant (January 1, year 1, 00:00:00 UTC), an unbounded
  integer; the zero value \<open>Time{}\<close> is 0.
\<close>

type_synonym int64 = "64 word"
type_synonym byte = "8 word"
type_synonym Duration = "64 word"
type_synonym Time = int

definition zeroTime :: Time where
  "zeroTime = 0"

definition minDuration :: Duration where
  "minDuration = word_of_int (- (2 ^ 63))"

definition maxDuration :: Duration where
  "maxDuration = word_of_int (2 ^ 63 - 1)"

text \<open>
  \<open>Time.Sub\<close> of the standard library: the difference \<open>t - u\<close>, and the minimum or
  maximum duration when the difference does not fit a \<open>Duration\<close>.
\<close>

definition Time_Sub :: "Time \<Rightarrow> Time \<Rightarrow> Duration" where
  "Time_Sub t u =
     (let d = t - u
      in if d < - (2 ^ 63) then minDuration
         else if 2 ^ 63 - 1 < d then maxDuration
         else word_of_int d)"

section \<open>Error model\<close>

text \<open>
  The error codes the handlers below return. An error value is a bare code, a code
  with a message (\<open>ErrorMessage\<close>), a code with a resource (\<open>ResourceError\<close>), the
  time-skew response, or an error of the storage backend passed through unchanged.
  A run-time panic of the Go code (an index out of range) is the value \<open>RuntimePanic\<close>.
\<close>

datatype ErrorCode =
    ErrInvalidRange
  | ErrInvalidPart
  | ErrMissingContentLength
  | ErrIncompleteBody
  | ErrMetadataTooLarge
  | ErrKeyTooLong
  | ErrInternal
  | ErrRequestTimeTooSkewed
  | ErrInvalidDigest
  | ErrBadDigest
  | ErrNoSuchUpload
  | ErrNoSuchBucket
  | ErrNoSuchKey
  | ErrMalformedPOSTRequest
  | ErrIncorrectNumberOfFilesInPostRequest

datatype error =
    Code ErrorCode
  | ErrorMessage ErrorCode string
  | ResourceError ErrorCode string
  | requestTimeTooSkewed Time Duration
  | RuntimePanic

fun ErrorCode_of :: "error \<Rightarrow> ErrorCode option" where
  "ErrorCode_of (Code c) = Some c"
| "ErrorCode_of (ErrorMessage c m) = Some c"
| "ErrorCode_of (ResourceError c r) = Some c"
| "ErrorCode_of (requestTimeTooSkewed at lim) = Some ErrRequestTimeTooSkewed"
| "ErrorCode_of RuntimePanic = None"

section \<open>Library functions on strings\<close>

text \<open>
  A Go string is a sequence of bytes; \<open>string\<close> is a list of 8-bit characters.
  \<open>strings.HasPrefix\<close>, \<open>strings.Split\<close> and \<open>strings.Index\<close> are used by the source
  with one-byte separators only.
\<close>

definition HasPrefix :: "string \<Rightarrow> string \<Rightarrow> bool" where
  "HasPrefix s p = (take (length p) s = p)"

fun Split :: "string \<Rightarrow> char \<Rightarrow> string list" where
  "Split [] sep = [[]]"
| "Split (c # cs) sep =
     (if c = sep then [] # Split cs sep
      else (case Split cs sep of
              [] \<Rightarrow> [[c]]
            | x # xs \<Rightarrow> (c # x) # xs))"

fun Index :: "string \<Rightarrow> char \<Rightarrow> int" where
  "Index [] sep = - 1"
| "Index (c # cs) sep =
     (if c = sep then 0
      else (let i = Index cs sep in if i < 0 then - 1 else i + 1))"

text \<open>
  \<open>strings.TrimSpace\<close> removes leading and trailing Unicode white space, decoding the
  bytes as UTF-8. \<open>spaceRunes\<close> lists the UTF-8 encodings of the code points with the
  White_Space property: U+0009 to U+000D, U+0020, U+0085, U+00A0, U+1680, U+2000 to
  U+200A, U+2028, U+2029, U+202F, U+205F and U+3000.
\<close>

definition spaceRunes :: "string list" where
  "spaceRunes =
     [[CHR 0x09], [CHR 0x0A], [CHR 0x0B], [CHR 0x0C], [CHR 0x0D], [CHR 0x20],
      [CHR 0xC2, CHR 0x85], [CHR 0xC2, CHR 0xA0],
      [CHR 0xE1, CHR 0x9A, CHR 0x80],
      [CHR 0xE2, CHR 0x80, CHR 0x80], [CHR 0xE2, CHR 0x80, CHR 0x81],
      [CHR 0xE2, CHR 0x80, CHR 0x82], [CHR 0xE2, CHR 0x80, CHR 0x83],
      [CHR 0xE2, CHR 0x80, CHR 0x84], [CHR 0xE2, CHR 0x80, CHR 0x85],
      [CHR 0xE2, CHR 0x80, CHR 0x86], [CHR 0xE2, CHR 0x80, CHR 0x87],
      [CHR 0xE2, CHR 0x80, CHR 0x88], [CHR 0xE2, CHR 0x80, CHR 0x89],
      [CHR 0xE2, CHR 0x80, CHR 0x8A],
      [CHR 0xE2, CHR 0x80, CHR 0xA8], [CHR 0xE2, CHR 0x80, CHR 0xA9],
      [CHR 0xE2, CHR 0x80, CHR 0xAF],
      [CHR 0xE2, CHR 0x81, CHR 0x9F],
      [CHR 0xE3, CHR 0x80, CHR 0x80]]"

definition leadingSpace :: "string \<Rightarrow> nat" where
  "leadingSpace s =
     (case find (\<lambda>p. HasPrefix s p) spaceRunes of
        None \<Rightarrow> 0
      | Some p \<Rightarrow> length p)"

definition HasSuffix :: "string \<Rightarrow> string \<Rightarrow> bool" where
  "HasSuffix s p = (length p \<le> length s \<and> drop (length s - length p) s = p)"

definition trailingSpace :: "string \<Rightarrow> nat" where
  "trailingSpace s =
     (case find (\<lambda>p. HasSuffix s p) spaceRunes of
        None \<Rightarrow> 0
      | Some p \<Rightarrow> length p)"

function TrimLeftSpace :: "string \<Rightarrow> string" where
  "TrimLeftSpace s =
     (if leadingSpace s = 0 then s
      else TrimLeftSpace (drop (leadingSpace s) s))"
  by pat_completeness auto
termination
proof (relation "measure length")
  fix s :: string
  assume "leadingSpace s \<noteq> 0"
  then have "s \<noteq> []"
    by (auto simp: leadingSpace_def spaceRunes_def HasPrefix_def)
  with \<open>leadingSpace s \<noteq> 0\<close>
  show "(drop (leadingSpace s) s, s) \<in> measure length"
    by simp
qed simp

function TrimRightSpace :: "string \<Rightarrow> string" where
  "TrimRightSpace s =
     (if trailingSpace s = 0 then s
      else TrimRightSpace (take (length s - trailingSpace s) s))"
  by pat_completeness auto
termination
proof (relation "measure length")
  fix s :: string
  assume "trailingSpace s \<noteq> 0"
  then have "s \<noteq> []"
    by (auto simp: trailingSpace_def spaceRunes_def HasSuffix_def)
  with \<open>trailingSpace s \<noteq> 0\<close>
  show "(take (length s - trailingSpace s) s, s) \<in> measure length"
    by simp
qed simp

definition TrimSpace :: "string \<Rightarrow> string" where
  "TrimSpace s = TrimRightSpace (TrimLeftSpace s)"

declare TrimLeftSpace.simps [simp del]
declare TrimRightSpace.simps [simp del]

text \<open>
  \<open>strconv.ParseInt(s, 10, 64)\<close>: an optional sign, then one or more decimal digits,
  and a value that fits an \<open>int64\<close>. \<open>None\<close> stands for either error of the library
  (syntax or range). \<open>ParseUint\<close> gives the unbounded value of the digit string; the
  range check of the library's \<open>ParseUint\<close> is subsumed by the cut-off of \<open>ParseInt\<close>.
  The source also calls \<open>ParseInt(s, 10, 0)\<close>, where the bit size is that of \<open>int\<close>:
  64 on the 64-bit platforms modelled here.
\<close>

definition isDigit :: "char \<Rightarrow> bool" where
  "isDigit c = (48 \<le> (of_char c :: int) \<and> (of_char c :: int) \<le> 57)"

definition ParseUint :: "string \<Rightarrow> int option" where
  "ParseUint s =
     (if s = [] \<or> \<not> list_all isDigit s then None
      else Some (foldl (\<lambda>a c. 10 * a + (of_char c - 48)) 0 s))"

definition ParseInt :: "string \<Rightarrow> int64 option" where
  "ParseInt s =
     (case s of
        [] \<Rightarrow> None
      | c # cs \<Rightarrow>
          (let neg = (c = CHR ''-'');
               s1 = (if c = CHR ''+'' \<or> c = CHR ''-'' then cs else s)
           in case ParseUint s1 of
                None \<Rightarrow> None
              | Some un \<Rightarrow>
                  if \<not> neg \<and> 2 ^ 63 \<le> un then None
                  else if neg \<and> 2 ^ 63 < un then None
                  else Some (if neg then - word_of_int un else word_of_int un)))"

text \<open>
  \<open>hex.EncodeToString\<close>: two lower-case hexadecimal digits for each byte, the high
  nibble first.
\<close>

definition hextable :: string where
  "hextable = ''0123456789abcdef''"

definition hex_EncodeToString :: "byte list \<Rightarrow> string" where
  "hex_EncodeToString src =
     concat (map (\<lambda>v. [hextable ! unat (drop_bit 4 v), hextable ! unat (v AND 0x0f)]) src)"

text \<open>\<open>fmt.Sprintf("%d", n)\<close> for an \<open>int64\<close>: the signed decimal numeral.\<close>

function showNat :: "nat \<Rightarrow> string" where
  "showNat n = (if n < 10 then [hextable ! n] else showNat (n div 10) @ [hextable ! (n mod 10)])"
  by pat_completeness auto
termination
  by (relation "measure id") auto

declare showNat.simps [simp del]

definition Sprintf_d :: "int64 \<Rightarrow> string" where
  "Sprintf_d n = (if sint n < 0 then ''-'' @ showNat (nat (- sint n)) else showNat (nat (sint n)))"

section \<open>Range requests\<close>

record ObjectRange =
  Start :: int64
  Length :: int64

record ObjectRangeRequest =
  ReqStart :: int64
  End :: int64
  FromEnd :: bool

definition RangeNoEnd :: int64 where
  "RangeNoEnd = - 1"

text \<open>
  \<open>(*ObjectRangeRequest).Range\<close>. The receiver is a pointer: \<open>None\<close> is \<open>nil\<close>.
  The field \<open>Start\<close> of the request is \<open>ReqStart\<close> here.
\<close>

definition ObjectRangeRequest_Range :: "ObjectRangeRequest option \<Rightarrow> int64 \<Rightarrow> ObjectRange option" where
  "ObjectRangeRequest_Range o_opt sz =
     (case o_opt of
        None \<Rightarrow> None
      | Some rq \<Rightarrow>
          if \<not> FromEnd rq then
            (if End rq = RangeNoEnd
             then Some \<lparr>Start = ReqStart rq, Length = sz - ReqStart rq\<rparr>
             else (let en = (if sz \<le>s End rq then sz - 1 else End rq)
                   in Some \<lparr>Start = ReqStart rq, Length = en - ReqStart rq + 1\<rparr>))
          else
            (let en = (if sz <s End rq then sz else End rq);
                 start = sz - en
             in Some \<lparr>Start = start, Length = sz - start\<rparr>))"

text \<open>
  \<open>parseRangeHeader\<close>. The result \<open>Inr None\<close> is the pair \<open>(nil, nil)\<close> of the source:
  no range was requested. \<open>strings.Split\<close> never returns an empty slice, so the
  branch for it stands for an index panic that cannot happen.
\<close>

definition parseRangeHeader :: "string \<Rightarrow> error + ObjectRangeRequest option" where
  "parseRangeHeader s =
     (if s = [] then Inr None
      else if \<not> HasPrefix s ''bytes='' then Inl (Code ErrInvalidRange)
      else
        let ranges = Split (drop (length ''bytes='') s) CHR '',''
        in
          if 1 < length ranges
          then Inl (ErrorMessage ErrInvalidRange ''multiple ranges not supported'')
          else
            case ranges of
              [] \<Rightarrow> Inl RuntimePanic
            | r0 # _ \<Rightarrow>
                let rnge = TrimSpace r0
                in
                  if length rnge = 0 then Inl (Code ErrInvalidRange)
                  else
                    let i = Index rnge CHR ''-''
                    in
                      if i < 0 then Inl (Code ErrInvalidRange)
                      else
                        let start = TrimSpace (take (nat i) rnge);
                            en = TrimSpace (drop (nat (i + 1)) rnge)
                        in
                          if start = [] then
                            (case ParseInt en of
                               None \<Rightarrow> Inl (Code ErrInvalidRange)
                             | Some e \<Rightarrow>
                                 Inr (Some \<lparr>ReqStart = 0, End = e, FromEnd = True\<rparr>))
                          else
                            (case ParseInt start of
                               None \<Rightarrow> Inl (Code ErrInvalidRange)
                             | Some b \<Rightarrow>
                                 if b <s 0 then Inl (Code ErrInvalidRange)
                                 else if en \<noteq> [] then
                                   (case ParseInt en of
                                      None \<Rightarrow> Inl (Code ErrInvalidRange)
                                    | Some e \<Rightarrow>
                                        if e <s b then Inl (Code ErrInvalidRange)
                                        else Inr (Some \<lparr>ReqStart = b, End = e,
                                                         FromEnd = False\<rparr>))
                                 else Inr (Some \<lparr>ReqStart = b, End = RangeNoEnd,
                                                  FromEnd = False\<rparr>)))"

text \<open>
  The conditions under which, in the words of the specification, the header is
  rejected with \<open>InvalidRange\<close>: the unit is not \<open>bytes=\<close>; there is more than one
  comma-separated range; the start is negative or unparseable; the explicit start
  exceeds the explicit end; an end or suffix bound is unparseable. The start is the
  text before the first \<open>-\<close> of the range (all of it when there is none), the end or
  suffix bound the text after it. \<open>returns_InvalidRange\<close> and \<open>returns_request\<close> read
  the result of the function of the source.
\<close>

definition claimed_range_text :: "string \<Rightarrow> string" where
  "claimed_range_text s =
     (case Split (drop (length ''bytes='') s) CHR '','' of
        [] \<Rightarrow> []
      | r0 # _ \<Rightarrow> TrimSpace r0)"

definition claimed_has_dash :: "string \<Rightarrow> bool" where
  "claimed_has_dash s = (0 \<le> Index (claimed_range_text s) CHR ''-'')"

definition claimed_start_text :: "string \<Rightarrow> string" where
  "claimed_start_text s =
     (let r = claimed_range_text s; i = Index r CHR ''-''
      in if i < 0 then r else TrimSpace (take (nat i) r))"

definition claimed_end_text :: "string \<Rightarrow> string" where
  "claimed_end_text s =
     (let r = claimed_range_text s; i = Index r CHR ''-''
      in if i < 0 then [] else TrimSpace (drop (nat (i + 1)) r))"

definition claimed_bad_unit :: "string \<Rightarrow> bool" where
  "claimed_bad_unit s = (\<not> HasPrefix s ''bytes='')"

definition claimed_multiple_ranges :: "string \<Rightarrow> bool" where
  "claimed_multiple_ranges s = (1 < length (Split (drop (length ''bytes='') s) CHR '',''))"

definition claimed_bad_start :: "string \<Rightarrow> bool" where
  "claimed_bad_start s =
     (claimed_start_text s \<noteq> [] \<and>
      (case ParseInt (claimed_start_text s) of None \<Rightarrow> True | Some b \<Rightarrow> b <s 0))"

definition claimed_start_exceeds_end :: "string \<Rightarrow> bool" where
  "claimed_start_exceeds_end s =
     (claimed_start_text s \<noteq> [] \<and> claimed_end_text s \<noteq> [] \<and>
      (case (ParseInt (claimed_start_text s), ParseInt (claimed_end_text s)) of
         (Some b, Some e) \<Rightarrow> e <s b
       | _ \<Rightarrow> False))"

definition claimed_bad_bound :: "string \<Rightarrow> bool" where
  "claimed_bad_bound s =
     (if claimed_start_text s = [] then ParseInt (claimed_end_text s) = None
      else claimed_end_text s \<noteq> [] \<and> ParseInt (claimed_end_text s) = None)"

definition claimed_InvalidRange :: "string \<Rightarrow> bool" where
  "claimed_InvalidRange s =
     (claimed_bad_unit s \<or> claimed_multiple_ranges s \<or> claimed_bad_start s \<or>
      claimed_start_exceeds_end s \<or> claimed_bad_bound s)"

definition returns_InvalidRange :: "string \<Rightarrow> bool" where
  "returns_InvalidRange s =
     (case parseRangeHeader s of
        Inl e \<Rightarrow> ErrorCode_of e = Some ErrInvalidRange
      | Inr _ \<Rightarrow> False)"

definition returns_request :: "string \<Rightarrow> bool" where
  "returns_request s =
     (case parseRangeHeader s of
        Inl e \<Rightarrow> False
      | Inr None \<Rightarrow> False
      | Inr (Some rq) \<Rightarrow> True)"

section \<open>HTTP headers\<close>

text \<open>
  \<open>http.Header\<close> and the value map of a multipart form are \<open>map[string][]string\<close>:
  an association list from keys to lists of values, in the order in which a \<open>range\<close>
  loop visits the entries (an order the Go run time chooses). The keys of a Go map
  are distinct. \<open>Get\<close>, \<open>Set\<close> and \<open>Add\<close> canonicalise the key they are given with
  \<open>textproto.CanonicalMIMEHeaderKey\<close>: a key made of token bytes only gets an upper
  case first letter and an upper case letter after each \<open>-\<close>, all other letters in
  lower case; any other key is left as it is.
\<close>

type_synonym Header = "(string \<times> string list) list"

definition isLower :: "char \<Rightarrow> bool" where
  "isLower c = (97 \<le> (of_char c :: int) \<and> (of_char c :: int) \<le> 122)"

definition isUpper :: "char \<Rightarrow> bool" where
  "isUpper c = (65 \<le> (of_char c :: int) \<and> (of_char c :: int) \<le> 90)"

definition toUpper :: "char \<Rightarrow> char" where
  "toUpper c = (if isLower c then char_of ((of_char c :: int) - 32) else c)"

definition toLower :: "char \<Rightarrow> char" where
  "toLower c = (if isUpper c then char_of ((of_char c :: int) + 32) else c)"

definition validHeaderFieldByte :: "char \<Rightarrow> bool" where
  "validHeaderFieldByte c =
     (isLower c \<or> isUpper c \<or> isDigit c \<or> c \<in> set ''!#$%&*+-.^_`|~'' \<or> c = CHR 0x27)"

fun canonicalCase :: "bool \<Rightarrow> string \<Rightarrow> string" where
  "canonicalCase upper [] = []"
| "canonicalCase upper (c # cs) =
     (let c1 = (if upper then toUpper c else toLower c)
      in c1 # canonicalCase (c1 = CHR ''-'') cs)"

definition CanonicalMIMEHeaderKey :: "string \<Rightarrow> string" where
  "CanonicalMIMEHeaderKey s =
     (if list_all validHeaderFieldByte s then canonicalCase True s else s)"

definition Header_Get :: "Header \<Rightarrow> string \<Rightarrow> string" where
  "Header_Get h key =
     (case map_of h (CanonicalMIMEHeaderKey key) of
        None \<Rightarrow> []
      | Some [] \<Rightarrow> []
      | Some (v # _) \<Rightarrow> v)"

definition Header_Set :: "string \<Rightarrow> string \<Rightarrow> Header \<Rightarrow> Header" where
  "Header_Set key v h = AList.update (CanonicalMIMEHeaderKey key) [v] h"

definition Header_Add :: "string \<Rightarrow> string \<Rightarrow> Header \<Rightarrow> Header" where
  "Header_Add key v h =
     AList.update (CanonicalMIMEHeaderKey key)
       ((case map_of h (CanonicalMIMEHeaderKey key) of None \<Rightarrow> [] | Some vs \<Rightarrow> vs) @ [v]) h"

section \<open>Metadata extraction\<close>

text \<open>
  \<open>formatHeaderTime\<close> appends \<open>" GMT"\<close> to the instant formatted in UTC with the layout
  \<open>Mon, 02 Jan 2006 15:04:05\<close>. The formatting is the standard library's; it is the
  parameter \<open>fmt\<close> of the model.
\<close>

definition formatHeaderTime :: "(Time \<Rightarrow> string) \<Rightarrow> Time \<Rightarrow> string" where
  "formatHeaderTime fmt t = fmt t @ '' GMT''"

text \<open>
  An object's metadata is a \<open>map[string]string\<close>: an association list with distinct
  keys. \<open>len\<close> of a Go string counts bytes. The total is a Go \<open>int\<close>; it is an unbounded
  integer here, the strings of a request being far shorter than \<open>2 ^ 63\<close> bytes.
\<close>

type_synonym Metadata = "(string \<times> string) list"

definition metadataSize :: "Metadata \<Rightarrow> int" where
  "metadataSize meta = fold (\<lambda>(k, v) total. total + (int (length k) + int (length v))) meta 0"

text \<open>
  The loop of \<open>metadataHeaders\<close> over the entries of the header map. \<open>hv[0]\<close> panics
  when a selected key has no value: the result is then \<open>None\<close>.
\<close>

fun metadataLoop :: "Header \<Rightarrow> Metadata \<Rightarrow> Metadata option" where
  "metadataLoop [] meta = Some meta"
| "metadataLoop ((hk, hv) # headers) meta =
     (if HasPrefix hk ''X-Amz-'' then
        (case hv of
           [] \<Rightarrow> None
         | v # _ \<Rightarrow> metadataLoop headers (AList.update hk v meta))
      else metadataLoop headers meta)"

text \<open>
  \<open>metadataHeaders\<close> returns the map and the error together, as the source does; a
  panic is the error \<open>RuntimePanic\<close> with an empty map.
\<close>

definition metadataHeaders ::
  "(Time \<Rightarrow> string) \<Rightarrow> Header \<Rightarrow> Time \<Rightarrow> int \<Rightarrow> Metadata \<times> error option" where
  "metadataHeaders fmt headers at sizeLimit =
     (case metadataLoop headers [] of
        None \<Rightarrow> ([], Some RuntimePanic)
      | Some m \<Rightarrow>
          (let meta = AList.update ''Last-Modified'' (formatHeaderTime fmt at) m
           in if 0 < sizeLimit \<and> sizeLimit < metadataSize meta
              then (meta, Some (Code ErrMetadataTooLarge))
              else (meta, None)))"

text \<open>
  \<open>hasEmptySelected\<close>: some selected key has an empty list of values (the case in
  which the loop panics). \<open>EqualFoldPrefix\<close>: the string begins with the prefix when
  ASCII letters are compared without regard to case.
\<close>

definition hasEmptySelected :: "Header \<Rightarrow> bool" where
  "hasEmptySelected headers = list_ex (\<lambda>(k, vs). HasPrefix k ''X-Amz-'' \<and> vs = []) headers"

definition EqualFoldPrefix :: "string \<Rightarrow> string \<Rightarrow> bool" where
  "EqualFoldPrefix s p = (map toLower (take (length p) s) = map toLower p)"

section \<open>Requests, responses and configuration\<close>

text \<open>
  The fields of \<open>http.Request\<close> that the handlers read. \<open>Body\<close> is a reader, of a
  type the model leaves open; \<open>ContentLength\<close> is the field of that name (\<open>-1\<close> when
  the length is unknown), which the server fills independently of the header map.
  \<open>Query\<close> is \<open>URL.Query()\<close>; \<open>Values.Get\<close> returns the first value of a key, or the
  empty string, and does not canonicalise the key.
\<close>

record 'rd Request =
  Header :: Header
  Query :: "(string \<times> string list) list"
  ContentLength :: int64
  Body :: 'rd

definition Values_Get :: "(string \<times> string list) list \<Rightarrow> string \<Rightarrow> string" where
  "Values_Get vs key =
     (case map_of vs key of
        None \<Rightarrow> []
      | Some [] \<Rightarrow> []
      | Some (v # _) \<Rightarrow> v)"

text \<open>
  \<open>http.ResponseWriter\<close>: the header map and the bytes written so far. The status
  line is written by the error shim and is not part of the model; the logging calls
  of the handlers have no effect on a result and are left out.
\<close>

record ResponseWriter =
  RespHeader :: Header
  RespBody :: "byte list"

definition setHeader :: "string \<Rightarrow> string \<Rightarrow> ResponseWriter \<Rightarrow> ResponseWriter" where
  "setHeader key v w = w\<lparr>RespHeader := Header_Set key v (RespHeader w)\<rparr>"

definition addHeader :: "string \<Rightarrow> string \<Rightarrow> ResponseWriter \<Rightarrow> ResponseWriter" where
  "addHeader key v w = w\<lparr>RespHeader := Header_Add key v (RespHeader w)\<rparr>"

text \<open>
  The configuration fields of \<open>GoFakeS3\<close>. The time source is the argument \<open>now\<close> of
  each handler: the value its single call of \<open>timeSource.Now()\<close> returns.
\<close>

record GoFakeS3 =
  timeSkew :: Duration
  metadataSizeLimit :: int
  integrityCheck :: bool
  hostBucket :: bool

definition KeySizeLimit :: int where
  "KeySizeLimit = 1024"

definition DefaultMetadataSizeLimit :: int where
  "DefaultMetadataSizeLimit = 2000"

definition DefaultSkewLimit :: Duration where
  "DefaultSkewLimit = 15 * (60 * 1000000000)"

definition MaxUploadPartNumber :: int64 where
  "MaxUploadPartNumber = 10000"

text \<open>The defaults that \<open>New\<close> sets.\<close>

definition New :: GoFakeS3 where
  "New = \<lparr>timeSkew = DefaultSkewLimit, metadataSizeLimit = DefaultMetadataSizeLimit,
           integrityCheck = True, hostBucket = False\<rparr>"

section \<open>Time-skew middleware\<close>

text \<open>
  The outcome of a middleware: it answers with an error itself (\<open>httpError\<close>), or it
  calls the inner handler. \<open>parse\<close> is \<open>time.Parse\<close> with the layout
  \<open>20060102T150405Z\<close>; on an error the library returns the zero \<open>Time\<close>, and the source
  discards the error and uses that value.
\<close>

datatype 'r served = HttpError error | Served 'r

definition timeSkewMiddleware ::
  "(string \<Rightarrow> Time option) \<Rightarrow> GoFakeS3 \<Rightarrow> Time \<Rightarrow> ('rd Request \<Rightarrow> 'r) \<Rightarrow> 'rd Request \<Rightarrow> 'r served" where
  "timeSkewMiddleware parse g now handler rq =
     (let timeHdr = Header_Get (Header rq) ''x-amz-date''
      in if timeHdr \<noteq> [] then
           (let rqTime = (case parse timeHdr of None \<Rightarrow> zeroTime | Some t \<Rightarrow> t);
                at = now;
                skew = Time_Sub at rqTime
            in if skew <s - timeSkew g \<or> timeSkew g <s skew
               then HttpError (requestTimeTooSkewed at (timeSkew g))
               else Served (handler rq))
         else Served (handler rq))"

section \<open>Object handlers\<close>

text \<open>
  The fields of \<open>Object\<close> that the handlers read. \<open>Contents\<close> is a reader: the bytes it
  delivers, and the error it ends with, if any. The field \<open>Range\<close> is \<open>ObjRange\<close> here.
\<close>

record Object =
  Name :: string
  Metadata :: Metadata
  Size :: int64
  Contents :: "byte list \<times> error option"
  Hash :: "byte list"
  ObjRange :: "ObjectRange option"

definition writeHeader :: "ObjectRange option \<Rightarrow> int64 \<Rightarrow> ResponseWriter \<Rightarrow> ResponseWriter" where
  "writeHeader o_opt sz w =
     (case o_opt of
        Some rg \<Rightarrow>
          setHeader ''Content-Length'' (Sprintf_d (Length rg))
            (setHeader ''Content-Range''
               (''bytes '' @ Sprintf_d (Start rg) @ ''-''
                  @ Sprintf_d (Start rg + Length rg - 1) @ ''/'' @ Sprintf_d sz) w)
      | None \<Rightarrow> setHeader ''Content-Length'' (Sprintf_d sz) w)"

text \<open>
  \<open>getObject\<close>. \<open>GetObject\<close> is the call of the storage backend: an error, a \<open>nil\<close>
  object (\<open>Inr None\<close>) or an object. The loop over the metadata map sets one header
  per entry, in the order of the loop. \<open>io.Copy\<close> appends the contents to the body
  and returns the reader's error.
\<close>

definition getObject ::
  "(Time \<Rightarrow> string) \<Rightarrow> Time
   \<Rightarrow> (string \<Rightarrow> string \<Rightarrow> ObjectRangeRequest option \<Rightarrow> error + Object option)
   \<Rightarrow> string \<Rightarrow> string \<Rightarrow> ResponseWriter \<Rightarrow> 'rd Request \<Rightarrow> error option \<times> ResponseWriter" where
  "getObject fmt now GetObject bucket object w r =
     (case parseRangeHeader (Header_Get (Header r) ''Range'') of
        Inl err \<Rightarrow> (Some err, w)
      | Inr rnge \<Rightarrow>
          (case GetObject bucket object rnge of
             Inl err \<Rightarrow> (Some err, w)
           | Inr None \<Rightarrow> (Some (Code ErrInternal), w)
           | Inr (Some obj) \<Rightarrow>
               (let w1 = writeHeader (ObjRange obj) (Size obj) w;
                    w2 = setHeader ''x-amz-id-2''
                           ''LriYPLdmOdAiIfgSm/F1YsViT1LW94/xUQxMsF7xiEb1a0wiIOIxl+zbwZ163pt7'' w1;
                    w3 = setHeader ''x-amz-request-id'' ''0A49CE4060975EAC'' w2;
                    w4 = fold (\<lambda>(mk, mv). setHeader mk mv) (Metadata obj) w3;
                    w5 = setHeader ''Last-Modified'' (formatHeaderTime fmt now) w4;
                    w6 = setHeader ''ETag'' (''\"'' @ hex_EncodeToString (Hash obj) @ ''\"'') w5;
                    w7 = setHeader ''Server'' ''AmazonS3'' w6;
                    w8 = setHeader ''Accept-Ranges'' ''bytes'' w7
                in (snd (Contents obj), w8\<lparr>RespBody := RespBody w8 @ fst (Contents obj)\<rparr>))))"

text \<open>
  \<open>headObject\<close>. The source does not test the object for \<open>nil\<close>: a \<open>nil\<close> object
  without an error is a nil dereference.
\<close>

definition headObject ::
  "(Time \<Rightarrow> string) \<Rightarrow> Time \<Rightarrow> (string \<Rightarrow> string \<Rightarrow> error + Object option)
   \<Rightarrow> string \<Rightarrow> string \<Rightarrow> ResponseWriter \<Rightarrow> 'rd Request \<Rightarrow> error option \<times> ResponseWriter" where
  "headObject fmt now HeadObject bucket object w r =
     (case HeadObject bucket object of
        Inl err \<Rightarrow> (Some err, w)
      | Inr None \<Rightarrow> (Some RuntimePanic, w)
      | Inr (Some obj) \<Rightarrow>
          (let w1 = setHeader ''x-amz-id-2''
                      ''LriYPLdmOdAiIfgSm/F1YsViT1LW94/xUQxMsF7xiEb1a0wiIOIxl+zbwZ163pt7'' w;
               w2 = setHeader ''x-amz-request-id'' ''0A49CE4060975EAC'' w1;
               w3 = fold (\<lambda>(mk, mv). setHeader mk mv) (Metadata obj) w2;
               w4 = setHeader ''Last-Modified'' (formatHeaderTime fmt now) w3;
               w5 = setHeader ''ETag'' (''\"'' @ hex_EncodeToString (Hash obj) @ ''\"'') w4;
               w6 = setHeader ''Server'' ''AmazonS3'' w5;
               w7 = setHeader ''Content-Length'' (Sprintf_d (Size obj)) w6;
               w8 = setHeader ''Connection'' ''close'' w7;
               w9 = setHeader ''Accept-Ranges'' ''bytes'' w8
           in (None, w9)))"

text \<open>
  \<open>createObject\<close>. \<open>newHashingReader\<close> wraps the body reader or fails; \<open>PutObject\<close> is the
  call of the storage backend, which may change the state \<open>st\<close> of the backend.
\<close>

definition createObject ::
  "(Time \<Rightarrow> string) \<Rightarrow> GoFakeS3 \<Rightarrow> Time
   \<Rightarrow> ('rd \<Rightarrow> string \<Rightarrow> error + 'rd)
   \<Rightarrow> (string \<Rightarrow> string \<Rightarrow> Metadata \<Rightarrow> 'rd \<Rightarrow> int64 \<Rightarrow> 'st \<Rightarrow> error option \<times> 'st)
   \<Rightarrow> string \<Rightarrow> string \<Rightarrow> ResponseWriter \<Rightarrow> 'rd Request \<Rightarrow> 'st
   \<Rightarrow> error option \<times> ResponseWriter \<times> 'st" where
  "createObject fmt g now newHashingReader PutObject bucket object w r st =
     (case metadataHeaders fmt (Header r) now (metadataSizeLimit g) of
        (meta, Some err) \<Rightarrow> (Some err, w, st)
      | (meta, None) \<Rightarrow>
          (case ParseInt (Header_Get (Header r) ''Content-Length'') of
             None \<Rightarrow> (Some (Code ErrMissingContentLength), w, st)
           | Some sz \<Rightarrow>
               if sz \<le>s 0 then (Some (Code ErrMissingContentLength), w, st)
               else if KeySizeLimit < int (length object)
               then (Some (ResourceError ErrKeyTooLong object), w, st)
               else
                 (case (if integrityCheck g \<and> Header_Get (Header r) ''Content-MD5'' \<noteq> []
                        then newHashingReader (Body r) (Header_Get (Header r) ''Content-MD5'')
                        else Inr (Body r)) of
                    Inl err \<Rightarrow> (Some err, w, st)
                  | Inr rdr \<Rightarrow>
                      (case PutObject bucket object meta rdr sz st of
                         (Some err, st1) \<Rightarrow> (Some err, w, st1)
                       | (None, st1) \<Rightarrow>
                           (let w1 = setHeader ''Access-Control-Allow-Origin'' ''*'' w;
                                w2 = setHeader ''x-amz-id-2''
                                       ''LriYPLdmOdAiIfgSm/F1YsViT1LW94/xUQxMsF7xiEb1a0wiIOIxl+zbwZ163pt7'' w1;
                                w3 = setHeader ''x-amz-request-id'' ''0A49CE4060975EAC'' w2;
                                w4 = setHeader ''ETag'' ''\"fbacf535f27731c9771645a39863328\"'' w3;
                                w5 = setHeader ''Server'' ''AmazonS3'' w4
                            in (None, w5, st1))))))"

text \<open>
  \<open>createObjectBrowserUpload\<close>. \<open>form\<close> is the result of \<open>r.ParseMultipartForm\<close>:
  \<open>None\<close> when it fails, else the form with its values and its files. A file header
  opens to a reader or fails, and knows its size.
\<close>

record 'rd FileHeader =
  Open :: "error + 'rd"
  FileSize :: int64

record 'rd Form =
  FormValue :: Header
  FormFile :: "(string \<times> 'rd FileHeader list) list"

definition createObjectBrowserUpload ::
  "(Time \<Rightarrow> string) \<Rightarrow> GoFakeS3 \<Rightarrow> Time
   \<Rightarrow> (string \<Rightarrow> string \<Rightarrow> Metadata \<Rightarrow> 'rd \<Rightarrow> int64 \<Rightarrow> 'st \<Rightarrow> error option \<times> 'st)
   \<Rightarrow> string \<Rightarrow> ResponseWriter \<Rightarrow> 'rd Form option \<Rightarrow> 'st
   \<Rightarrow> error option \<times> ResponseWriter \<times> 'st" where
  "createObjectBrowserUpload fmt g now PutObject bucket w form st =
     (case form of
        None \<Rightarrow> (Some (Code ErrMalformedPOSTRequest), w, st)
      | Some f \<Rightarrow>
          (case (case map_of (FormValue f) ''key'' of None \<Rightarrow> [] | Some vs \<Rightarrow> vs) of
             [key] \<Rightarrow>
               (case (case map_of (FormFile f) ''file'' of None \<Rightarrow> [] | Some fs \<Rightarrow> fs) of
                  [fileHeader] \<Rightarrow>
                    (case Open fileHeader of
                       Inl err \<Rightarrow> (Some err, w, st)
                     | Inr infile \<Rightarrow>
                         (case metadataHeaders fmt (FormValue f) now (metadataSizeLimit g) of
                            (meta, Some err) \<Rightarrow> (Some err, w, st)
                          | (meta, None) \<Rightarrow>
                              if KeySizeLimit < int (length key)
                              then (Some (ResourceError ErrKeyTooLong key), w, st)
                              else
                                (case PutObject bucket key meta infile (FileSize fileHeader) st of
                                   (Some err, st1) \<Rightarrow> (Some err, w, st1)
                                 | (None, st1) \<Rightarrow>
                                     (let w1 = setHeader ''Access-Control-Allow-Origin'' ''*'' w;
                                          w2 = setHeader ''x-amz-id-2''
                                                 ''LriYPLdmOdAiIfgSm/F1YsViT1LW94/xUQxMsF7xiEb1a0wiIOIxl+zbwZ163pt7'' w1;
                                          w3 = setHeader ''x-amz-request-id'' ''0A49CE4060975EAC'' w2;
                                          w4 = setHeader ''ETag'' ''\"fbacf535f27731c9771645a39863328\"'' w3;
                                          w5 = setHeader ''Server'' ''AmazonS3'' w4
                                      in (None, w5, st1)))))
                | _ \<Rightarrow> (Some (Code ErrIncorrectNumberOfFilesInPostRequest), w, st))
           | _ \<Rightarrow> (Some (Code ErrIncorrectNumberOfFilesInPostRequest), w, st)))"

section \<open>Multipart upload: put part\<close>

text \<open>
  \<open>putMultipartUploadPart\<close>. The uploader and the readers are other files of the
  repository; they are the parameters \<open>Get\<close> (\<open>uploader.Get\<close>), \<open>newHashingReader\<close>,
  \<open>ReadAll\<close> and \<open>AddPart\<close> (\<open>upload.AddPart\<close>), the last acting on the state \<open>u\<close> of
  the uploader, which holds the parts tables. \<open>int(partNumber)\<close> is the signed value
  of the parsed \<open>int64\<close>.
\<close>

definition putMultipartUploadPart ::
  "GoFakeS3 \<Rightarrow> Time
   \<Rightarrow> (string \<Rightarrow> string \<Rightarrow> string \<Rightarrow> 'u \<Rightarrow> error + 'up)
   \<Rightarrow> ('rd \<Rightarrow> string \<Rightarrow> error + 'rd)
   \<Rightarrow> ('rd \<Rightarrow> int64 \<Rightarrow> error + byte list)
   \<Rightarrow> ('up \<Rightarrow> int \<Rightarrow> Time \<Rightarrow> byte list \<Rightarrow> 'u \<Rightarrow> (error + string) \<times> 'u)
   \<Rightarrow> string \<Rightarrow> string \<Rightarrow> string \<Rightarrow> ResponseWriter \<Rightarrow> 'rd Request \<Rightarrow> 'u
   \<Rightarrow> error option \<times> ResponseWriter \<times> 'u" where
  "putMultipartUploadPart g now Get newHashingReader ReadAll AddPart bucket object uploadID w r u =
     (case ParseInt (Values_Get (Query r) ''partNumber'') of
        None \<Rightarrow> (Some (Code ErrInvalidPart), w, u)
      | Some partNumber \<Rightarrow>
          if partNumber \<le>s 0 \<or> MaxUploadPartNumber <s partNumber
          then (Some (Code ErrInvalidPart), w, u)
          else
            (case ParseInt (Header_Get (Header r) ''Content-Length'') of
               None \<Rightarrow> (Some (Code ErrMissingContentLength), w, u)
             | Some sz \<Rightarrow>
                 if sz \<le>s 0 then (Some (Code ErrMissingContentLength), w, u)
                 else
                   (case Get bucket object uploadID u of
                      Inl err \<Rightarrow> (Some err, w, u)
                    | Inr upload \<Rightarrow>
                        (case (if integrityCheck g \<and> Header_Get (Header r) ''Content-MD5'' \<noteq> []
                               then newHashingReader (Body r) (Header_Get (Header r) ''Content-MD5'')
                               else Inr (Body r)) of
                           Inl err \<Rightarrow> (Some err, w, u)
                         | Inr rdr \<Rightarrow>
                             (case ReadAll rdr sz of
                                Inl err \<Rightarrow> (Some err, w, u)
                              | Inr body \<Rightarrow>
                                  if int (length body) \<noteq> sint (ContentLength r)
                                  then (Some (Code ErrIncompleteBody), w, u)
                                  else
                                    (case AddPart upload (sint partNumber) now body u of
                                       (Inl err, u1) \<Rightarrow> (Some err, w, u1)
                                     | (Inr etag, u1) \<Rightarrow> (None, addHeader ''ETag'' etag w, u1)))))))"

section \<open>Stand-ins for the examples\<close>

text \<open>
  Concrete parameters for the examples below. A reader is the list of bytes it
  delivers. The storage backend records the objects it is asked to store. The
  uploader knows the single upload \<open>upload-1\<close> and keeps its parts in a table; the
  ETag it returns is not a digest. \<open>ReadAll\<close> delivers the body when it has exactly
  the announced size. No example sends a \<open>Content-MD5\<close> header.
\<close>

text \<open>
  A concrete formatter for the examples: the layout \<open>Mon, 02 Jan 2006 15:04:05\<close> in
  UTC, for instants from year 1 to year 9999 of the proleptic Gregorian calendar
  (January 1 of year 1 is a Monday).
\<close>

definition digit2 :: "int \<Rightarrow> string" where
  "digit2 n = [char_of (48 + (n div 10) mod 10), char_of (48 + n mod 10)]"

definition isLeap :: "int \<Rightarrow> bool" where
  "isLeap y = (y mod 4 = 0 \<and> (y mod 100 \<noteq> 0 \<or> y mod 400 = 0))"

definition daysBefore :: "int \<Rightarrow> int \<Rightarrow> int" where
  "daysBefore y m =
     [0, 31, 59, 90, 120, 151, 181, 212, 243, 273, 304, 334] ! nat (m - 1)
       + (if isLeap y \<and> 2 < m then 1 else 0)"

definition civilOfDays :: "int \<Rightarrow> int \<times> int \<times> int" where
  "civilOfDays n =
     (let n400 = n div 146097; r1 = n mod 146097;
          n100 = min 3 (r1 div 36524); r2 = r1 - 36524 * n100;
          n4 = r2 div 1461; r3 = r2 mod 1461;
          n1 = min 3 (r3 div 365); yday = r3 - 365 * n1;
          y = 400 * n400 + 100 * n100 + 4 * n4 + n1 + 1;
          m = int (length (filter (\<lambda>k. daysBefore y k \<le> yday) [1, 2, 3, 4, 5, 6, 7, 8, 9, 10, 11, 12]))
      in (y, m, yday - daysBefore y m + 1))"

definition utcFormat :: "Time \<Rightarrow> string" where
  "utcFormat t =
     (let secs = t div 1000000000; days = secs div 86400; r = secs mod 86400;
          (y, m, d) = civilOfDays days
      in [''Mon'', ''Tue'', ''Wed'', ''Thu'', ''Fri'', ''Sat'', ''Sun''] ! nat (days mod 7)
         @ '', '' @ digit2 d @ '' ''
         @ [''Jan'', ''Feb'', ''Mar'', ''Apr'', ''May'', ''Jun'',
            ''Jul'', ''Aug'', ''Sep'', ''Oct'', ''Nov'', ''Dec''] ! nat (m - 1)
         @ '' '' @ digit2 (y div 100) @ digit2 (y mod 100)
         @ '' '' @ digit2 (r div 3600) @ '':'' @ digit2 ((r mod 3600) div 60)
         @ '':'' @ digit2 (r mod 60))"

text \<open>
  The instant of a civil date and time in UTC, in nanoseconds since the zero instant.
\<close>

definition Date :: "int \<Rightarrow> int \<Rightarrow> int \<Rightarrow> int \<Rightarrow> int \<Rightarrow> int \<Rightarrow> Time" where
  "Date y m d hh mm ss =
     ((((365 * (y - 1) + (y - 1) div 4 - (y - 1) div 100 + (y - 1) div 400
          + daysBefore y m + (d - 1)) * 24 + hh) * 60 + mm) * 60 + ss) * 1000000000"

text \<open>
  A concrete parser for the examples: it accepts the sixteen bytes
  \<open>YYYYMMDDThhmmssZ\<close> of a valid date and time. The library accepts a little more
  (a fractional second before the \<open>Z\<close>), which no example uses.
\<close>

definition decimal :: "string \<Rightarrow> int" where
  "decimal s = foldl (\<lambda>a c. 10 * a + (of_char c - 48)) 0 s"

definition daysIn :: "int \<Rightarrow> int \<Rightarrow> int" where
  "daysIn m y =
     (if m = 2 \<and> isLeap y then 29
      else [31, 28, 31, 30, 31, 30, 31, 31, 30, 31, 30, 31] ! nat (m - 1))"

definition parseAmzDate :: "string \<Rightarrow> Time option" where
  "parseAmzDate s =
     (if length s = 16 \<and> list_all isDigit (take 8 s) \<and> s ! 8 = CHR ''T''
         \<and> list_all isDigit (take 6 (drop 9 s)) \<and> s ! 15 = CHR ''Z''
      then
        (let y = decimal (take 4 s); m = decimal (take 2 (drop 4 s));
             d = decimal (take 2 (drop 6 s)); hh = decimal (take 2 (drop 9 s));
             mm = decimal (take 2 (drop 11 s)); ss = decimal (take 2 (drop 13 s))
         in if 1 \<le> m \<and> m \<le> 12 \<and> 1 \<le> d \<and> d \<le> daysIn m y
               \<and> hh < 24 \<and> mm < 60 \<and> ss < 60
            then Some (Date y m d hh mm ss)
            else None)
      else None)"

text \<open>An inner handler for the examples.\<close>

definition okHandler :: "'rd Request \<Rightarrow> string" where
  "okHandler rq = ''served by the inner handler''"

definition recordingPutObject ::
  "string \<Rightarrow> string \<Rightarrow> Metadata \<Rightarrow> byte list \<Rightarrow> int64
   \<Rightarrow> (string \<times> string \<times> byte list) list \<Rightarrow> error option \<times> (string \<times> string \<times> byte list) list" where
  "recordingPutObject bucket key meta rdr sz st = (None, st @ [(bucket, key, rdr)])"

definition rejectingHashingReader :: "byte list \<Rightarrow> string \<Rightarrow> error + byte list" where
  "rejectingHashingReader rdr md5Base64 = Inl (Code ErrInvalidDigest)"

definition exactReadAll :: "byte list \<Rightarrow> int64 \<Rightarrow> error + byte list" where
  "exactReadAll rdr sz =
     (if int (length rdr) = sint sz then Inr rdr else Inl (Code ErrIncompleteBody))"

definition singleUploadGet ::
  "string \<Rightarrow> string \<Rightarrow> string \<Rightarrow> (int \<times> byte list) list \<Rightarrow> error + unit" where
  "singleUploadGet bucket object uploadID u =
     (if uploadID = ''upload-1'' then Inr () else Inl (Code ErrNoSuchUpload))"

definition tableAddPart ::
  "unit \<Rightarrow> int \<Rightarrow> Time \<Rightarrow> byte list \<Rightarrow> (int \<times> byte list) list
   \<Rightarrow> (error + string) \<times> (int \<times> byte list) list" where
  "tableAddPart upload partNumber at body u =
     (if partNumber < 1 \<or> 10000 < partNumber then (Inl (Code ErrInvalidPart), u)
      else (Inr ''\"part\"'', AList.update partNumber body u))"

definition bytesOf :: "string \<Rightarrow> byte list" where
  "bytesOf s = map of_char s"

definition emptyWriter :: ResponseWriter where
  "emptyWriter = \<lparr>RespHeader = [], RespBody = []\<rparr>"

text \<open>
  The object \<open>hello\<close> (its hash is the MD5 digest of the five bytes), stored with an
  old \<open>Last-Modified\<close> entry in its metadata; a backend that holds this one object and
  ignores ranges; and the requests of the examples.
\<close>

definition helloObject :: Object where
  "helloObject =
     \<lparr>Name = ''object'',
      Metadata = [(''X-Amz-Meta-Color'', ''red''),
                  (''Last-Modified'', ''Mon, 02 Jan 2006 15:04:05 GMT'')],
      Size = 5,
      Contents = (bytesOf ''hello'', None),
      Hash = [0x5d, 0x41, 0x40, 0x2a, 0xbc, 0x4b, 0x2a, 0x76,
              0xb9, 0x71, 0x9d, 0x91, 0x10, 0x17, 0xc5, 0x92],
      ObjRange = None\<rparr>"

definition helloGetObject ::
  "string \<Rightarrow> string \<Rightarrow> ObjectRangeRequest option \<Rightarrow> error + Object option" where
  "helloGetObject bucket object rnge =
     (if bucket = ''bucket'' \<and> object = ''object'' then Inr (Some helloObject)
      else Inl (ResourceError ErrNoSuchKey object))"

definition helloPut :: "byte list Request" where
  "helloPut = \<lparr>Header = [(''Content-Length'', [''5''])], Query = [],
                ContentLength = 5, Body = bytesOf ''hello''\<rparr>"

definition plainGet :: "unit Request" where
  "plainGet = \<lparr>Header = [], Query = [], ContentLength = 0, Body = ()\<rparr>"

definition noLengthPut :: "byte list Request" where
  "noLengthPut = \<lparr>Header = [(''X-Amz-Meta-Note'', [replicate 2000 CHR ''a''])], Query = [],
                   ContentLength = - 1, Body = bytesOf ''hello''\<rparr>"

definition emptyPut :: "byte list Request" where
  "emptyPut = \<lparr>Header = [(''Content-Length'', [''0''])], Query = [],
                ContentLength = 0, Body = []\<rparr>"

definition partPut :: "byte list Request" where
  "partPut = \<lparr>Header = [(''Content-Length'', [''5''])],
               Query = [(''partNumber'', [''7'']), (''uploadId'', [''upload-1''])],
               ContentLength = 5, Body = bytesOf ''hello''\<rparr>"

definition badPartPut :: "byte list Request" where
  "badPartPut = \<lparr>Header = [(''Content-Length'', [''5''])],
                  Query = [(''partNumber'', [''10001'']), (''uploadId'', [''upload-1''])],
                  ContentLength = 5, Body = bytesOf ''hello''\<rparr>"

definition shortPartPut :: "byte list Request" where
  "shortPartPut = \<lparr>Header = [(''Content-Length'', [''5''])],
                    Query = [(''partNumber'', [''7'']), (''uploadId'', [''upload-1''])],
                    ContentLength = 6, Body = bytesOf ''hello''\<rparr>"

section \<open>Verified properties\<close>

subsection \<open>Helper facts\<close>

lemma Split_not_Nil: "Split s c \<noteq> []"
  by (cases s) (auto split: list.splits)

lemma sint_diff_exact:
  fixes S N :: int64
  assumes "0 \<le>s N" and "N \<le>s S"
  shows "sint (S - N) = sint S - sint N"
proof -
  have n: "0 \<le> sint N" and ns: "sint N \<le> sint S"
    using assms by (simp_all add: word_sle_eq)
  have "sint S < 2 ^ 63"
    using sint_lt [of S] by simp
  with n ns have "- (2 ^ 63) \<le> sint S - sint N" and "sint S - sint N < 2 ^ 63"
    by simp_all
  then show ?thesis
    by (simp add: sint_word_ariths signed_take_bit_int_eq_self)
qed

subsection \<open>Suffix ranges\<close>

text \<open>
  Claim C3. For an object size \<open>S \<ge> 0\<close> and a suffix request \<open>bytes=-N\<close> (a request
  with \<open>FromEnd\<close> set and \<open>End = N\<close>): when \<open>N > S\<close> the resolved range is the whole
  object, \<open>Start = 0\<close> and \<open>Length = S\<close>; when \<open>N \<le> S\<close> it is \<open>Start = S - N\<close> and
  \<open>Length = N\<close>. The subtraction is the one of \<open>int64\<close>; for a suffix length
  \<open>0 \<le> N \<le> S\<close> it does not wrap, so \<open>Start\<close> is the integer \<open>S - N\<close>.
\<close>

theorem suffix_range_resolution:
  fixes S N a :: int64
  assumes "0 \<le>s S"
  shows "(S <s N \<longrightarrow>
            ObjectRangeRequest_Range (Some \<lparr>ReqStart = a, End = N, FromEnd = True\<rparr>) S
              = Some \<lparr>Start = 0, Length = S\<rparr>)
       \<and> (N \<le>s S \<longrightarrow>
            ObjectRangeRequest_Range (Some \<lparr>ReqStart = a, End = N, FromEnd = True\<rparr>) S
              = Some \<lparr>Start = S - N, Length = N\<rparr>)
       \<and> (0 \<le>s N \<and> N \<le>s S \<longrightarrow> sint (S - N) = sint S - sint N)"
  using sint_diff_exact [of N S]
  by (auto simp: ObjectRangeRequest_Range_def Let_def)

theorem suffix_range_resolution_witness:
  "0 \<le>s (1024 :: int64)
   \<and> (1024 :: int64) <s 1025 \<and> (24 :: int64) \<le>s 1024 \<and> 0 \<le>s (24 :: int64)
   \<and> ObjectRangeRequest_Range (Some \<lparr>ReqStart = 0, End = 1025, FromEnd = True\<rparr>) 1024
        = Some \<lparr>Start = 0, Length = 1024\<rparr>
   \<and> ObjectRangeRequest_Range (Some \<lparr>ReqStart = 0, End = 24, FromEnd = True\<rparr>) 1024
        = Some \<lparr>Start = 1000, Length = 24\<rparr>"
proof -
  have h: "0 \<le>s (1024 :: int64)"
    by (simp add: word_sle_eq)
  have c: "(1024 :: int64) <s 1025" "(24 :: int64) \<le>s 1024" "0 \<le>s (24 :: int64)"
    by (simp_all add: word_sle_eq word_sless_alt)
  show ?thesis
    using h c suffix_range_resolution [OF h, of 1025 0] suffix_range_resolution [OF h, of 24 0]
    by simp
qed

subsection \<open>Rejected Range headers\<close>

text \<open>
  Claim C4, as stated, at the header \<open>bytes=0\<close>: the unit is \<open>bytes=\<close>, there is one
  range, its start \<open>0\<close> parses and is not negative, and there is no end or suffix
  bound; the function still returns \<open>InvalidRange\<close>, because the range has no \<open>-\<close>.
\<close>

theorem parseRangeHeader_counterexample:
  "returns_InvalidRange ''bytes=0'' \<and> \<not> claimed_InvalidRange ''bytes=0''"
  by code_simp

text \<open>
  Claim C4, amended. For every non-empty Range header, \<open>parseRangeHeader\<close> returns the
  \<open>InvalidRange\<close> error exactly when one of the stated conditions holds or the range
  contains no \<open>-\<close>; otherwise it returns a parsed range request and no error.
\<close>

theorem parseRangeHeader_InvalidRange_iff:
  assumes "s \<noteq> []"
  shows "(returns_InvalidRange s \<longleftrightarrow> claimed_InvalidRange s \<or> \<not> claimed_has_dash s)
       \<and> (\<not> returns_InvalidRange s \<longrightarrow> returns_request s)"
proof (cases "Split (drop (length ''bytes='') s) CHR '',''")
  case Nil
  then show ?thesis using Split_not_Nil by blast
next
  case (Cons r0 rs)
  then show ?thesis
    using assms
    by (auto simp: returns_InvalidRange_def returns_request_def parseRangeHeader_def
          claimed_InvalidRange_def claimed_has_dash_def claimed_bad_unit_def
          claimed_multiple_ranges_def claimed_bad_start_def claimed_start_exceeds_end_def
          claimed_bad_bound_def claimed_start_text_def claimed_end_text_def
          claimed_range_text_def Let_def
          split: option.splits)
qed

theorem parseRangeHeader_InvalidRange_iff_witness:
  "''bytes=0-499'' \<noteq> [] \<and> \<not> returns_InvalidRange ''bytes=0-499''
   \<and> claimed_has_dash ''bytes=0-499'' \<and> \<not> claimed_InvalidRange ''bytes=0-499''
   \<and> returns_request ''bytes=0-499''"
proof -
  have h: "''bytes=0-499'' \<noteq> []"
    by simp
  have d: "claimed_has_dash ''bytes=0-499''"
    by code_simp
  have c: "\<not> claimed_InvalidRange ''bytes=0-499''"
    by code_simp
  from parseRangeHeader_InvalidRange_iff [OF h] d c
  have "\<not> returns_InvalidRange ''bytes=0-499''" and "returns_request ''bytes=0-499''"
    by blast+
  with h d c show ?thesis
    by blast
qed

subsection \<open>Metadata extraction\<close>

lemma metadataLoop_None:
  "hasEmptySelected headers \<Longrightarrow> metadataLoop headers acc = None"
  by (induction headers acc rule: metadataLoop.induct)
     (auto simp: hasEmptySelected_def split: list.splits)

lemma metadataLoop_Some:
  "\<not> hasEmptySelected headers \<Longrightarrow> \<exists>m. metadataLoop headers acc = Some m"
  by (induction headers acc rule: metadataLoop.induct)
     (auto simp: hasEmptySelected_def split: list.splits)

lemma metadataLoop_distinct:
  "metadataLoop headers acc = Some m \<Longrightarrow> distinct (map fst acc) \<Longrightarrow> distinct (map fst m)"
  by (induction headers acc rule: metadataLoop.induct)
     (auto simp: distinct_update split: list.splits if_splits)

lemma metadataLoop_map_of:
  "metadataLoop headers acc = Some m \<Longrightarrow> distinct (map fst headers) \<Longrightarrow>
   map_of m k =
     (case map_of headers k of
        None \<Rightarrow> map_of acc k
      | Some vs \<Rightarrow> if HasPrefix k ''X-Amz-'' then Some (hd vs) else map_of acc k)"
proof (induction headers acc arbitrary: m rule: metadataLoop.induct)
  case (1 meta)
  then show ?case by simp
next
  case (2 hk hv headers meta)
  have notin: "map_of headers hk = None"
    using 2(4) by (simp add: map_of_eq_None_iff)
  show ?case
  proof (cases "HasPrefix hk ''X-Amz-''")
    case True
    with 2(3) obtain v vs where hv: "hv = v # vs"
      by (cases hv) auto
    with True 2(3) have "metadataLoop headers (AList.update hk v meta) = Some m"
      by simp
    with 2(1) [OF True hv] 2(4) have
      "map_of m k = (case map_of headers k of
        None \<Rightarrow> map_of (AList.update hk v meta) k
      | Some vs \<Rightarrow> if HasPrefix k ''X-Amz-'' then Some (hd vs) else map_of (AList.update hk v meta) k)"
      by simp
    then show ?thesis
      using True hv notin by (auto simp: update_conv' split: option.splits)
  next
    case False
    with 2(3) have "metadataLoop headers meta = Some m"
      by simp
    with 2(2) [OF False] 2(4) have
      "map_of m k = (case map_of headers k of
        None \<Rightarrow> map_of meta k
      | Some vs \<Rightarrow> if HasPrefix k ''X-Amz-'' then Some (hd vs) else map_of meta k)"
      by simp
    then show ?thesis
      using False notin by (auto split: option.splits)
  qed
qed

lemma fold_size_acc:
  "fold (\<lambda>(k, v) total. total + (int (length k) + int (length v))) meta a
     = a + (\<Sum>(k, v)\<leftarrow>meta. int (length k) + int (length v))"
  by (induction meta arbitrary: a) (auto simp: case_prod_beta)

lemma metadataSize_sum:
  "metadataSize meta = (\<Sum>(k, v)\<leftarrow>meta. int (length k) + int (length v))"
  by (simp add: metadataSize_def fold_size_acc)

text \<open>
  Claim C5, as stated, at a map with the key \<open>x-amz-meta-color\<close>: the key begins with
  \<open>X-Amz-\<close> when case is ignored, and it is not selected.
\<close>

theorem metadataHeaders_selection_counterexample:
  "EqualFoldPrefix ''x-amz-meta-color'' ''X-Amz-''
   \<and> map_of (fst (metadataHeaders utcFormat [(''x-amz-meta-color'', [''red''])]
                    (Date 2019 1 1 0 0 0) 2000)) ''x-amz-meta-color'' = None"
  by code_simp

lemma selected_value_nonempty:
  assumes "\<not> hasEmptySelected headers" and "map_of headers k = Some vs"
    and "HasPrefix k ''X-Amz-''"
  shows "vs \<noteq> []"
proof
  assume "vs = []"
  with assms(2) have "(k, []) \<in> set headers"
    by (simp add: map_of_SomeD)
  with assms(3) have "hasEmptySelected headers"
    by (auto simp: hasEmptySelected_def list_ex_iff)
  with assms(1) show False
    by simp
qed

text \<open>
  Claim C5, amended. For every header map (or form field map), metadata extraction
  selects exactly the keys that begin with the bytes \<open>X-Amz-\<close>, compared with regard
  to case; it keeps the first value of each selected key, under the key exactly as
  it is written in the map, and adds the key \<open>Last-Modified\<close>. When a selected key
  has no value the extraction panics.
\<close>

theorem metadataHeaders_selection:
  assumes "distinct (map fst headers)"
  shows "if hasEmptySelected headers
         then metadataHeaders fmt headers at lim = ([], Some RuntimePanic)
         else map_of (fst (metadataHeaders fmt headers at lim)) k =
                (if k = ''Last-Modified'' then Some (formatHeaderTime fmt at)
                 else if HasPrefix k ''X-Amz-'' then
                   (case map_of headers k of
                      None \<Rightarrow> None
                    | Some [] \<Rightarrow> None
                    | Some (v # _) \<Rightarrow> Some v)
                 else None)"
proof (cases "hasEmptySelected headers")
  case True
  then show ?thesis
    by (simp add: metadataHeaders_def metadataLoop_None)
next
  case False
  then obtain m where m: "metadataLoop headers [] = Some m"
    using metadataLoop_Some by blast
  have "map_of m k =
     (case map_of headers k of
        None \<Rightarrow> None
      | Some vs \<Rightarrow> if HasPrefix k ''X-Amz-'' then Some (hd vs) else None)"
    using metadataLoop_map_of [OF m assms, of k] by (simp split: option.splits)
  moreover have "\<not> HasPrefix ''Last-Modified'' ''X-Amz-''"
    by (simp add: HasPrefix_def)
  ultimately show ?thesis
    using False m selected_value_nonempty [OF False, of k]
    by (auto simp: metadataHeaders_def Let_def update_conv' split: option.splits list.splits)
qed

theorem metadataHeaders_selection_witness:
  "distinct (map fst [(''X-Amz-Meta-Color'', [''red'', ''blue'']), (''Content-Type'', [''text/plain''])])
   \<and> \<not> hasEmptySelected [(''X-Amz-Meta-Color'', [''red'', ''blue'']), (''Content-Type'', [''text/plain''])]
   \<and> map_of (fst (metadataHeaders utcFormat
        [(''X-Amz-Meta-Color'', [''red'', ''blue'']), (''Content-Type'', [''text/plain''])]
        (Date 2019 1 1 0 0 0) 2000)) ''X-Amz-Meta-Color'' = Some ''red''"
proof -
  let ?hs = "[(''X-Amz-Meta-Color'', [''red'', ''blue'']), (''Content-Type'', [''text/plain''])]"
  have d: "distinct (map fst ?hs)"
    by simp
  have e: "\<not> hasEmptySelected ?hs"
    by code_simp
  have p: "HasPrefix ''X-Amz-Meta-Color'' ''X-Amz-''"
    by code_simp
  from metadataHeaders_selection [OF d, of utcFormat "Date 2019 1 1 0 0 0" 2000 "''X-Amz-Meta-Color''"] e p
  have "map_of (fst (metadataHeaders utcFormat ?hs (Date 2019 1 1 0 0 0) 2000)) ''X-Amz-Meta-Color''
          = Some ''red''"
    by simp
  with d e show ?thesis
    by blast
qed

text \<open>
  Claim C6. For a positive size limit, metadata extraction fails with
  \<open>MetadataTooLarge\<close> exactly when the sum of \<open>len(key) + len(value)\<close> over the entries
  of the extracted map exceeds the limit. The map has distinct keys, so that the sum
  counts each entry once, and nothing but keys and values is counted. Unless the
  extraction panics, the map holds the injected \<open>Last-Modified\<close> entry, and the
  extraction succeeds when the sum is within the limit.
\<close>

theorem metadataHeaders_too_large_iff:
  assumes "0 < lim"
  shows "(snd (metadataHeaders fmt headers at lim) = Some (Code ErrMetadataTooLarge) \<longleftrightarrow>
            lim < (\<Sum>(k, v)\<leftarrow>fst (metadataHeaders fmt headers at lim).
                      int (length k) + int (length v)))
       \<and> distinct (map fst (fst (metadataHeaders fmt headers at lim)))
       \<and> (\<not> hasEmptySelected headers \<longrightarrow>
            map_of (fst (metadataHeaders fmt headers at lim)) ''Last-Modified''
              = Some (formatHeaderTime fmt at)
            \<and> (snd (metadataHeaders fmt headers at lim) \<noteq> Some (Code ErrMetadataTooLarge) \<longrightarrow>
                 snd (metadataHeaders fmt headers at lim) = None))"
proof (cases "hasEmptySelected headers")
  case True
  then have "metadataHeaders fmt headers at lim = ([], Some RuntimePanic)"
    by (simp add: metadataHeaders_def metadataLoop_None)
  with True assms show ?thesis
    by simp
next
  case False
  then obtain m where m: "metadataLoop headers [] = Some m"
    using metadataLoop_Some by blast
  define meta where "meta = AList.update ''Last-Modified'' (formatHeaderTime fmt at) m"
  have "distinct (map fst m)"
    using metadataLoop_distinct [OF m] by simp
  then have d: "distinct (map fst meta)"
    by (simp add: meta_def distinct_update)
  have l: "map_of meta ''Last-Modified'' = Some (formatHeaderTime fmt at)"
    by (simp only: meta_def update_conv' fun_upd_same)
  have r: "metadataHeaders fmt headers at lim =
             (if lim < metadataSize meta then (meta, Some (Code ErrMetadataTooLarge))
              else (meta, None))"
    using m assms by (simp add: metadataHeaders_def Let_def meta_def)
  show ?thesis
  proof (cases "lim < metadataSize meta")
    case True
    with r have "metadataHeaders fmt headers at lim = (meta, Some (Code ErrMetadataTooLarge))"
      by simp
    with d l True show ?thesis
      by (simp only: fst_conv snd_conv metadataSize_sum) simp
  next
    case False
    with r have "metadataHeaders fmt headers at lim = (meta, None)"
      by simp
    with d l False show ?thesis
      by (simp only: fst_conv snd_conv metadataSize_sum) simp
  qed
qed

theorem metadataHeaders_too_large_iff_witness:
  "(0 :: int) < 50 \<and> \<not> hasEmptySelected [(''X-Amz-Meta-A'', [''0123456789''])]
   \<and> snd (metadataHeaders utcFormat [(''X-Amz-Meta-A'', [''0123456789''])]
             (Date 2019 1 1 0 0 0) 50) = Some (Code ErrMetadataTooLarge)
   \<and> (\<Sum>(k, v)\<leftarrow>fst (metadataHeaders utcFormat [(''X-Amz-Meta-A'', [''0123456789''])]
                          (Date 2019 1 1 0 0 0) 50). int (length k) + int (length v)) = 64"
proof -
  let ?hs = "[(''X-Amz-Meta-A'', [''0123456789''])]"
  have h: "(0 :: int) < 50"
    by simp
  have e: "\<not> hasEmptySelected ?hs"
    by code_simp
  have s: "(\<Sum>(k, v)\<leftarrow>fst (metadataHeaders utcFormat ?hs (Date 2019 1 1 0 0 0) 50).
              int (length k) + int (length v)) = 64"
    by code_simp
  from metadataHeaders_too_large_iff [OF h, of utcFormat ?hs "Date 2019 1 1 0 0 0"] s
  have "snd (metadataHeaders utcFormat ?hs (Date 2019 1 1 0 0 0) 50)
          = Some (Code ErrMetadataTooLarge)"
    by simp
  with h e s show ?thesis
    by blast
qed

subsection \<open>Time-skew middleware\<close>

lemma sint_int64_of_int:
  assumes "- (2 ^ 63) \<le> d" and "d < 2 ^ 63"
  shows "sint (word_of_int d :: int64) = d"
  using assms by (simp add: sint_sbintrunc' signed_take_bit_int_eq_self)

lemma sint_minDuration: "sint minDuration = - (2 ^ 63)"
  unfolding minDuration_def by (rule sint_int64_of_int) simp_all

lemma sint_maxDuration: "sint maxDuration = 2 ^ 63 - 1"
  unfolding maxDuration_def by (rule sint_int64_of_int) simp_all

lemma sint_neg_exact:
  fixes L :: int64
  assumes "0 \<le> sint L"
  shows "sint (- L) = - sint L"
proof -
  have "sint L < 2 ^ 63"
    using sint_lt [of L] by simp
  with assms have "- (2 ^ 63) \<le> - sint L" and "- sint L < 2 ^ 63"
    by simp_all
  then show ?thesis
    by (simp add: sint_word_ariths signed_take_bit_int_eq_self)
qed

lemma skew_test_iff:
  fixes L :: Duration
  assumes "0 \<le> sint L" and "sint L < 2 ^ 63 - 1"
  shows "(Time_Sub a b <s - L \<or> L <s Time_Sub a b) \<longleftrightarrow> sint L < \<bar>a - b\<bar>"
proof -
  have n: "sint (- L) = - sint L"
    using assms(1) by (rule sint_neg_exact)
  consider (low) "a - b < - (2 ^ 63)" | (high) "2 ^ 63 - 1 < a - b"
    | (mid) "- (2 ^ 63) \<le> a - b" "a - b \<le> 2 ^ 63 - 1"
    by linarith
  then show ?thesis
  proof cases
    case low
    then have "Time_Sub a b = minDuration"
      by (simp add: Time_Sub_def)
    with low assms n show ?thesis
      by (simp add: word_sless_alt sint_minDuration)
  next
    case high
    then have "Time_Sub a b = maxDuration"
      by (simp add: Time_Sub_def)
    with high assms n show ?thesis
      by (simp add: word_sless_alt sint_maxDuration)
  next
    case mid
    then have "Time_Sub a b = word_of_int (a - b)"
      by (simp add: Time_Sub_def)
    moreover have "sint (word_of_int (a - b) :: Duration) = a - b"
      using mid by (intro sint_int64_of_int) simp_all
    ultimately show ?thesis
      using n by (auto simp: word_sless_alt)
  qed
qed

text \<open>
  Claim C2, as stated, at a request whose \<open>x-amz-date\<close> header is \<open>yesterday\<close>, with
  the default limit of 15 minutes and the clock at 2019-01-01 00:00:00 UTC: the header
  does not parse, and the request is answered with \<open>RequestTimeTooSkewed\<close> instead of
  being forwarded.
\<close>

theorem timeSkewMiddleware_counterexample:
  "Header_Get [(''X-Amz-Date'', [''yesterday''])] ''x-amz-date'' = ''yesterday''
   \<and> parseAmzDate ''yesterday'' = None
   \<and> timeSkewMiddleware parseAmzDate New (Date 2019 1 1 0 0 0) okHandler
        \<lparr>Header = [(''X-Amz-Date'', [''yesterday''])], Query = [], ContentLength = 0, Body = ()\<rparr>
      = HttpError (requestTimeTooSkewed (Date 2019 1 1 0 0 0) DefaultSkewLimit)"
  by code_simp

text \<open>
  Claim C2, amended. For a skew limit \<open>L\<close> with \<open>0 \<le> L\<close> below the maximum duration:
  a request without an \<open>x-amz-date\<close> header (or with an empty one) is forwarded to the
  inner handler; a request with the header is answered with \<open>RequestTimeTooSkewed\<close>
  exactly when the clock differs by more than \<open>L\<close> from the instant the header parses
  to, and from the zero instant (January 1, year 1) when the header does not parse;
  otherwise it is forwarded.
\<close>

theorem timeSkewMiddleware_decision:
  assumes "0 \<le>s timeSkew g" and "timeSkew g \<noteq> maxDuration"
  shows "timeSkewMiddleware parse g now handler rq =
           (if Header_Get (Header rq) ''x-amz-date'' = [] then Served (handler rq)
            else if sint (timeSkew g)
                      < \<bar>now - (case parse (Header_Get (Header rq) ''x-amz-date'') of
                                  None \<Rightarrow> zeroTime
                                | Some t \<Rightarrow> t)\<bar>
            then HttpError (requestTimeTooSkewed now (timeSkew g))
            else Served (handler rq))"
proof -
  have a: "0 \<le> sint (timeSkew g)"
    using assms(1) by (simp add: word_sle_eq)
  have "sint (timeSkew g) \<noteq> sint maxDuration"
    using assms(2) signed_word_eqI [of "timeSkew g" maxDuration] by blast
  moreover have "sint (timeSkew g) < 2 ^ 63"
    using sint_lt [of "timeSkew g"] by simp
  ultimately have b: "sint (timeSkew g) < 2 ^ 63 - 1"
    by (simp add: sint_maxDuration)
  show ?thesis
    by (simp add: timeSkewMiddleware_def Let_def skew_test_iff [OF a b])
qed

theorem timeSkewMiddleware_decision_witness:
  "0 \<le>s timeSkew New \<and> timeSkew New \<noteq> maxDuration
   \<and> timeSkewMiddleware parseAmzDate New (Date 2019 1 1 0 10 0) okHandler
        \<lparr>Header = [(''X-Amz-Date'', [''20190101T000000Z''])], Query = [],
           ContentLength = 0, Body = ()\<rparr>
      = Served ''served by the inner handler''
   \<and> timeSkewMiddleware parseAmzDate New (Date 2019 1 1 0 16 0) okHandler
        \<lparr>Header = [(''X-Amz-Date'', [''20190101T000000Z''])], Query = [],
           ContentLength = 0, Body = ()\<rparr>
      = HttpError (requestTimeTooSkewed (Date 2019 1 1 0 16 0) (timeSkew New))"
proof -
  let ?rq = "\<lparr>Header = [(''X-Amz-Date'', [''20190101T000000Z''])], Query = [],
               ContentLength = 0, Body = ()\<rparr>"
  have h1: "0 \<le>s timeSkew New"
    by code_simp
  have h2: "timeSkew New \<noteq> maxDuration"
    by code_simp
  have p: "Header_Get (Header ?rq) ''x-amz-date'' = ''20190101T000000Z''"
    by code_simp
  have q: "parseAmzDate ''20190101T000000Z'' = Some (Date 2019 1 1 0 0 0)"
    by code_simp
  have a: "\<not> sint (timeSkew New) < \<bar>Date 2019 1 1 0 10 0 - Date 2019 1 1 0 0 0\<bar>"
    by code_simp
  have b: "sint (timeSkew New) < \<bar>Date 2019 1 1 0 16 0 - Date 2019 1 1 0 0 0\<bar>"
    by code_simp
  have "timeSkewMiddleware parseAmzDate New (Date 2019 1 1 0 10 0) okHandler ?rq
          = Served ''served by the inner handler''"
    using timeSkewMiddleware_decision [OF h1 h2, of parseAmzDate "Date 2019 1 1 0 10 0" okHandler ?rq]
      a
    by (simp only: p q option.case okHandler_def) simp
  moreover have "timeSkewMiddleware parseAmzDate New (Date 2019 1 1 0 16 0) okHandler ?rq
          = HttpError (requestTimeTooSkewed (Date 2019 1 1 0 16 0) (timeSkew New))"
    using timeSkewMiddleware_decision [OF h1 h2, of parseAmzDate "Date 2019 1 1 0 16 0" okHandler ?rq]
      b
    by (simp only: p q option.case) simp
  ultimately show ?thesis
    using h1 h2 by blast
qed

subsection \<open>Object handlers\<close>

lemma canon_keys:
  "CanonicalMIMEHeaderKey ''Last-Modified'' = ''Last-Modified''"
  "CanonicalMIMEHeaderKey ''ETag'' = ''Etag''"
  "CanonicalMIMEHeaderKey ''Server'' = ''Server''"
  "CanonicalMIMEHeaderKey ''Accept-Ranges'' = ''Accept-Ranges''"
  "CanonicalMIMEHeaderKey ''Content-Length'' = ''Content-Length''"
  "CanonicalMIMEHeaderKey ''Connection'' = ''Connection''"
  by code_simp+

lemma getObject_success:
  assumes "fst (getObject fmt now GetObject bucket object w r) = None"
  obtains rnge obj where
    "parseRangeHeader (Header_Get (Header r) ''Range'') = Inr rnge"
    "GetObject bucket object rnge = Inr (Some obj)"
  using assms
  by (auto simp: getObject_def split: sum.splits option.splits)

lemma getObject_headers:
  assumes "parseRangeHeader (Header_Get (Header r) ''Range'') = Inr rnge"
    and "GetObject bucket object rnge = Inr (Some obj)"
  shows "\<exists>h. RespHeader (snd (getObject fmt now GetObject bucket object w r)) =
           Header_Set ''Accept-Ranges'' ''bytes''
             (Header_Set ''Server'' ''AmazonS3''
                (Header_Set ''ETag'' (''\"'' @ hex_EncodeToString (Hash obj) @ ''\"'')
                   (Header_Set ''Last-Modified'' (formatHeaderTime fmt now) h)))"
  using assms by (simp add: getObject_def Let_def setHeader_def) blast

text \<open>
  Claim C9. For every successful GET-object request, the \<open>Last-Modified\<close> response
  header is the current time \<open>now\<close> of the injected clock, formatted in UTC with the
  layout \<open>Mon, 02 Jan 2006 15:04:05\<close> and followed by \<open>GMT\<close>. It is the only value of
  the header: it is set after the headers of the object's metadata map and replaces
  a \<open>Last-Modified\<close> entry of that map, so it follows the clock and not what the
  object stores.
\<close>

theorem getObject_LastModified:
  assumes "fst (getObject fmt now GetObject bucket object w r) = None"
  shows "map_of (RespHeader (snd (getObject fmt now GetObject bucket object w r))) ''Last-Modified''
           = Some [fmt now @ '' GMT'']
       \<and> Header_Get (RespHeader (snd (getObject fmt now GetObject bucket object w r))) ''Last-Modified''
           = fmt now @ '' GMT''"
proof -
  obtain rnge obj where
    "parseRangeHeader (Header_Get (Header r) ''Range'') = Inr rnge"
    "GetObject bucket object rnge = Inr (Some obj)"
    using assms by (rule getObject_success)
  then obtain h where
    "RespHeader (snd (getObject fmt now GetObject bucket object w r)) =
           Header_Set ''Accept-Ranges'' ''bytes''
             (Header_Set ''Server'' ''AmazonS3''
                (Header_Set ''ETag'' (''\"'' @ hex_EncodeToString (Hash obj) @ ''\"'')
                   (Header_Set ''Last-Modified'' (formatHeaderTime fmt now) h)))"
    using getObject_headers by blast
  then show ?thesis
    by (simp add: Header_Get_def Header_Set_def canon_keys update_conv' formatHeaderTime_def)
qed

theorem getObject_LastModified_witness:
  "fst (getObject utcFormat (Date 2019 1 1 0 0 0) helloGetObject ''bucket'' ''object''
          emptyWriter plainGet) = None
   \<and> fst (getObject utcFormat (Date 2020 2 29 12 30 45) helloGetObject ''bucket'' ''object''
          emptyWriter plainGet) = None
   \<and> map_of (Metadata helloObject) ''Last-Modified'' = Some ''Mon, 02 Jan 2006 15:04:05 GMT''
   \<and> Header_Get (RespHeader (snd (getObject utcFormat (Date 2019 1 1 0 0 0) helloGetObject
          ''bucket'' ''object'' emptyWriter plainGet))) ''Last-Modified''
        = ''Tue, 01 Jan 2019 00:00:00 GMT''
   \<and> Header_Get (RespHeader (snd (getObject utcFormat (Date 2020 2 29 12 30 45) helloGetObject
          ''bucket'' ''object'' emptyWriter plainGet))) ''Last-Modified''
        = ''Sat, 29 Feb 2020 12:30:45 GMT''"
proof -
  have s1: "fst (getObject utcFormat (Date 2019 1 1 0 0 0) helloGetObject ''bucket'' ''object''
                   emptyWriter plainGet) = None"
    by code_simp
  have s2: "fst (getObject utcFormat (Date 2020 2 29 12 30 45) helloGetObject ''bucket'' ''object''
                   emptyWriter plainGet) = None"
    by code_simp
  have m: "map_of (Metadata helloObject) ''Last-Modified'' = Some ''Mon, 02 Jan 2006 15:04:05 GMT''"
    by code_simp
  have f1: "utcFormat (Date 2019 1 1 0 0 0) @ '' GMT'' = ''Tue, 01 Jan 2019 00:00:00 GMT''"
    by code_simp
  have f2: "utcFormat (Date 2020 2 29 12 30 45) @ '' GMT'' = ''Sat, 29 Feb 2020 12:30:45 GMT''"
    by code_simp
  have h1: "Header_Get (RespHeader (snd (getObject utcFormat (Date 2019 1 1 0 0 0) helloGetObject
          ''bucket'' ''object'' emptyWriter plainGet))) ''Last-Modified''
        = ''Tue, 01 Jan 2019 00:00:00 GMT''"
    using getObject_LastModified [OF s1] by (simp only: f1)
  have h2: "Header_Get (RespHeader (snd (getObject utcFormat (Date 2020 2 29 12 30 45) helloGetObject
          ''bucket'' ''object'' emptyWriter plainGet))) ''Last-Modified''
        = ''Sat, 29 Feb 2020 12:30:45 GMT''"
    using getObject_LastModified [OF s2] by (simp only: f2)
  from s1 s2 m h1 h2 show ?thesis
    by blast
qed

lemma getObject_ETag:
  assumes "fst (getObject fmt now GetObject bucket object w r) = None"
  shows "\<exists>rnge obj. GetObject bucket object rnge = Inr (Some obj)
           \<and> Header_Get (RespHeader (snd (getObject fmt now GetObject bucket object w r))) ''ETag''
               = ''\"'' @ hex_EncodeToString (Hash obj) @ ''\"''"
proof -
  obtain rnge obj where o:
    "parseRangeHeader (Header_Get (Header r) ''Range'') = Inr rnge"
    "GetObject bucket object rnge = Inr (Some obj)"
    using assms by (rule getObject_success)
  then obtain h where
    "RespHeader (snd (getObject fmt now GetObject bucket object w r)) =
           Header_Set ''Accept-Ranges'' ''bytes''
             (Header_Set ''Server'' ''AmazonS3''
                (Header_Set ''ETag'' (''\"'' @ hex_EncodeToString (Hash obj) @ ''\"'')
                   (Header_Set ''Last-Modified'' (formatHeaderTime fmt now) h)))"
    using getObject_headers by blast
  then have "Header_Get (RespHeader (snd (getObject fmt now GetObject bucket object w r))) ''ETag''
               = ''\"'' @ hex_EncodeToString (Hash obj) @ ''\"''"
    by (simp add: Header_Get_def Header_Set_def canon_keys update_conv')
  with o(2) show ?thesis by blast
qed

text \<open>
  The ETag of a GET response is the quoted lower-case hex of the object's hash
  (\<open>getObject_ETag\<close> above). The ETag that \<open>createObject\<close> and the browser upload
  send is a constant of 31 hex digits, which is the hex of no 16-byte hash.
\<close>

lemma hex_EncodeToString_length: "length (hex_EncodeToString src) = 2 * length src"
  by (induction src) (simp_all add: hex_EncodeToString_def)

lemma put_ETag_is_no_digest:
  assumes "length h = 16"
  shows "''\"fbacf535f27731c9771645a39863328\"'' \<noteq> ''\"'' @ hex_EncodeToString h @ ''\"''"
proof
  assume "''\"fbacf535f27731c9771645a39863328\"'' = ''\"'' @ hex_EncodeToString h @ ''\"''"
  then have "length ''\"fbacf535f27731c9771645a39863328\"''
               = length (''\"'' @ hex_EncodeToString h @ ''\"'')"
    by (rule arg_cong)
  with assms show False
    by (simp add: hex_EncodeToString_length)
qed

text \<open>
  Claim C1, at a PUT of the five bytes \<open>hello\<close>: the request succeeds and the backend
  stores the object; the ETag header of the response is the constant, while the
  quoted hex of the object's MD5 hash, which a GET of the same object sends, is
  \<open>"5d41402abc4b2a76b9719d911017c592"\<close>.
\<close>

theorem createObject_ETag_hello:
  "fst (createObject utcFormat New (Date 2019 1 1 0 0 0) rejectingHashingReader
          recordingPutObject ''bucket'' ''object'' emptyWriter helloPut []) = None
   \<and> snd (snd (createObject utcFormat New (Date 2019 1 1 0 0 0) rejectingHashingReader
          recordingPutObject ''bucket'' ''object'' emptyWriter helloPut []))
        = [(''bucket'', ''object'', bytesOf ''hello'')]
   \<and> Header_Get (RespHeader (fst (snd (createObject utcFormat New (Date 2019 1 1 0 0 0)
          rejectingHashingReader recordingPutObject ''bucket'' ''object'' emptyWriter helloPut []))))
        ''ETag'' = ''\"fbacf535f27731c9771645a39863328\"''
   \<and> ''\"'' @ hex_EncodeToString (Hash helloObject) @ ''\"''
        = ''\"5d41402abc4b2a76b9719d911017c592\"''
   \<and> Header_Get (RespHeader (snd (getObject utcFormat (Date 2019 1 1 0 0 0) helloGetObject
          ''bucket'' ''object'' emptyWriter plainGet))) ''ETag''
        = ''\"5d41402abc4b2a76b9719d911017c592\"''"
  by code_simp

lemma createObject_no_backend_call:
  assumes "case ParseInt (Header_Get (Header r) ''Content-Length'') of
             None \<Rightarrow> True
           | Some n \<Rightarrow> sint n \<le> 0"
  shows "createObject fmt g now newHashingReader PutObject bucket object w r st =
           (case snd (metadataHeaders fmt (Header r) now (metadataSizeLimit g)) of
              None \<Rightarrow> (Some (Code ErrMissingContentLength), w, st)
            | Some err \<Rightarrow> (Some err, w, st))"
  using assms
  by (cases "metadataHeaders fmt (Header r) now (metadataSizeLimit g)")
     (auto simp: createObject_def word_sle_eq split: option.splits)

text \<open>
  Claim C8, as stated, at a PUT without a \<open>Content-Length\<close> header whose metadata
  exceeds the default limit of 2000 bytes: the handler returns \<open>MetadataTooLarge\<close>,
  not \<open>MissingContentLength\<close>.
\<close>

theorem createObject_MissingContentLength_counterexample:
  "ParseInt (Header_Get (Header noLengthPut) ''Content-Length'') = None
   \<and> createObject utcFormat New (Date 2019 1 1 0 0 0) rejectingHashingReader
        recordingPutObject ''bucket'' ''object'' emptyWriter noLengthPut []
      = (Some (Code ErrMetadataTooLarge), emptyWriter, [])"
  by code_simp

text \<open>
  Claim C8, amended. For every plain PUT-object request whose \<open>Content-Length\<close> header
  is absent, unparseable or \<open>\<le> 0\<close>, the handler returns before calling the backend:
  with \<open>MissingContentLength\<close> when metadata extraction succeeds, and with the error of
  metadata extraction (\<open>MetadataTooLarge\<close>, or a panic on a selected key without a
  value) otherwise. The response writer and the state of the backend are unchanged,
  so a plain PUT never stores a zero-byte object.
\<close>

theorem createObject_bad_Content_Length:
  assumes "case ParseInt (Header_Get (Header r) ''Content-Length'') of
             None \<Rightarrow> True
           | Some n \<Rightarrow> sint n \<le> 0"
  shows "(snd (metadataHeaders fmt (Header r) now (metadataSizeLimit g)) = None \<longrightarrow>
            createObject fmt g now newHashingReader PutObject bucket object w r st
              = (Some (Code ErrMissingContentLength), w, st))
       \<and> (\<forall>err. snd (metadataHeaders fmt (Header r) now (metadataSizeLimit g)) = Some err \<longrightarrow>
            createObject fmt g now newHashingReader PutObject bucket object w r st
              = (Some err, w, st))
       \<and> fst (createObject fmt g now newHashingReader PutObject bucket object w r st)
           \<in> {Some (Code ErrMissingContentLength), Some (Code ErrMetadataTooLarge),
              Some RuntimePanic}
       \<and> snd (createObject fmt g now newHashingReader PutObject bucket object w r st) = (w, st)"
proof -
  have "snd (metadataHeaders fmt (Header r) now (metadataSizeLimit g))
          \<in> {None, Some (Code ErrMetadataTooLarge), Some RuntimePanic}"
    by (simp add: metadataHeaders_def Let_def split: option.splits)
  then show ?thesis
    using createObject_no_backend_call [OF assms, of fmt g now newHashingReader PutObject bucket object w st]
    by (auto split: option.splits)
qed

theorem createObject_bad_Content_Length_witness:
  "ParseInt (Header_Get (Header emptyPut) ''Content-Length'') = Some 0
   \<and> snd (metadataHeaders utcFormat (Header emptyPut) (Date 2019 1 1 0 0 0)
            (metadataSizeLimit New)) = None
   \<and> createObject utcFormat New (Date 2019 1 1 0 0 0) rejectingHashingReader
        recordingPutObject ''bucket'' ''object'' emptyWriter emptyPut []
      = (Some (Code ErrMissingContentLength), emptyWriter, [])"
proof -
  have p: "ParseInt (Header_Get (Header emptyPut) ''Content-Length'') = Some 0"
    by code_simp
  have h: "case ParseInt (Header_Get (Header emptyPut) ''Content-Length'') of
             None \<Rightarrow> True
           | Some n \<Rightarrow> sint n \<le> 0"
    by (simp add: p)
  have m: "snd (metadataHeaders utcFormat (Header emptyPut) (Date 2019 1 1 0 0 0)
                  (metadataSizeLimit New)) = None"
    by code_simp
  from createObject_bad_Content_Length [OF h, where fmt = utcFormat and now = "Date 2019 1 1 0 0 0"
      and g = New and newHashingReader = rejectingHashingReader and PutObject = recordingPutObject
      and bucket = "''bucket''" and object = "''object''" and w = emptyWriter and st = "[]"] m
  have "createObject utcFormat New (Date 2019 1 1 0 0 0) rejectingHashingReader
          recordingPutObject ''bucket'' ''object'' emptyWriter emptyPut []
        = (Some (Code ErrMissingContentLength), emptyWriter, [])"
    by blast
  with p m show ?thesis
    by blast
qed

subsection \<open>Put part\<close>

lemma putPart_rejected:
  assumes "case ParseInt (Values_Get (Query r) ''partNumber'') of
             None \<Rightarrow> True
           | Some n \<Rightarrow> sint n < 1 \<or> 10000 < sint n"
  shows "putMultipartUploadPart g now Get newHashingReader ReadAll AddPart
           bucket object uploadID w r u = (Some (Code ErrInvalidPart), w, u)"
  using assms
  by (auto simp: putMultipartUploadPart_def MaxUploadPartNumber_def word_sle_eq word_sless_alt
           split: option.splits)

lemma putPart_not_rejected:
  assumes pn: "ParseInt (Values_Get (Query r) ''partNumber'') = Some n"
      "1 \<le> sint n" "sint n \<le> 10000"
    and get: "\<forall>e. Get bucket object uploadID u = Inl e \<longrightarrow> ErrorCode_of e \<noteq> Some ErrInvalidPart"
    and nhr: "\<forall>md5 e. newHashingReader (Body r) md5 = Inl e
                \<longrightarrow> ErrorCode_of e \<noteq> Some ErrInvalidPart"
    and rd: "\<forall>rdr sz e. ReadAll rdr sz = Inl e \<longrightarrow> ErrorCode_of e \<noteq> Some ErrInvalidPart"
    and add: "\<forall>up k body e u1. 1 \<le> k \<and> k \<le> 10000 \<and> AddPart up k now body u = (Inl e, u1)
                \<longrightarrow> ErrorCode_of e \<noteq> Some ErrInvalidPart"
    and res: "fst (putMultipartUploadPart g now Get newHashingReader ReadAll AddPart
                bucket object uploadID w r u) = Some e"
  shows "ErrorCode_of e \<noteq> Some ErrInvalidPart"
proof -
  have v: "\<not> (n \<le>s 0 \<or> MaxUploadPartNumber <s n)"
    using pn(2,3) by (simp add: MaxUploadPartNumber_def word_sle_eq word_sless_alt)
  have a: "\<forall>up body e u1. AddPart up (sint n) now body u = (Inl e, u1)
             \<longrightarrow> ErrorCode_of e \<noteq> Some ErrInvalidPart"
    using add pn(2,3) by blast
  show ?thesis
    using res pn(1) v get nhr rd a
    by (auto simp: putMultipartUploadPart_def split: option.splits sum.splits if_splits prod.splits)
       blast+
qed

text \<open>
  Claim C7. The handler rejects a put-part request with \<open>InvalidPart\<close> exactly when
  the \<open>partNumber\<close> query value is unparseable, less than 1 or greater than 10000,
  and it then leaves the uploader as it was. The hypotheses say that the calls after
  the validation (\<open>Get\<close>, the hashing reader, \<open>ReadAll\<close>, and \<open>AddPart\<close> for a part
  number in range) do not themselves return \<open>InvalidPart\<close>: a request with a part
  number in \<open>[1, 10000]\<close> is not rejected with \<open>InvalidPart\<close> by the validation.
\<close>

theorem putMultipartUploadPart_InvalidPart:
  assumes get: "\<forall>e. Get bucket object uploadID u = Inl e \<longrightarrow> ErrorCode_of e \<noteq> Some ErrInvalidPart"
    and nhr: "\<forall>md5 e. newHashingReader (Body r) md5 = Inl e
                \<longrightarrow> ErrorCode_of e \<noteq> Some ErrInvalidPart"
    and rd: "\<forall>rdr sz e. ReadAll rdr sz = Inl e \<longrightarrow> ErrorCode_of e \<noteq> Some ErrInvalidPart"
    and add: "\<forall>up k body e u1. 1 \<le> k \<and> k \<le> 10000 \<and> AddPart up k now body u = (Inl e, u1)
                \<longrightarrow> ErrorCode_of e \<noteq> Some ErrInvalidPart"
  shows "((\<exists>e. fst (putMultipartUploadPart g now Get newHashingReader ReadAll AddPart
                     bucket object uploadID w r u) = Some e
               \<and> ErrorCode_of e = Some ErrInvalidPart)
          \<longleftrightarrow> (case ParseInt (Values_Get (Query r) ''partNumber'') of
                 None \<Rightarrow> True
               | Some n \<Rightarrow> sint n < 1 \<or> 10000 < sint n))
       \<and> ((case ParseInt (Values_Get (Query r) ''partNumber'') of
              None \<Rightarrow> True
            | Some n \<Rightarrow> sint n < 1 \<or> 10000 < sint n)
          \<longrightarrow> putMultipartUploadPart g now Get newHashingReader ReadAll AddPart
                bucket object uploadID w r u = (Some (Code ErrInvalidPart), w, u))"
proof (cases "case ParseInt (Values_Get (Query r) ''partNumber'') of
                None \<Rightarrow> True
              | Some n \<Rightarrow> sint n < 1 \<or> 10000 < sint n")
  case True
  then have "putMultipartUploadPart g now Get newHashingReader ReadAll AddPart
               bucket object uploadID w r u = (Some (Code ErrInvalidPart), w, u)"
    by (rule putPart_rejected)
  with True show ?thesis
    by simp
next
  case False
  then obtain n where n: "ParseInt (Values_Get (Query r) ''partNumber'') = Some n"
      "1 \<le> sint n" "sint n \<le> 10000"
    by (auto split: option.splits)
  have "ErrorCode_of e \<noteq> Some ErrInvalidPart"
    if "fst (putMultipartUploadPart g now Get newHashingReader ReadAll AddPart
               bucket object uploadID w r u) = Some e" for e
    using n get nhr rd add that by (rule putPart_not_rejected)
  with False show ?thesis
    by blast
qed

theorem putMultipartUploadPart_InvalidPart_witness:
  "ParseInt (Values_Get (Query partPut) ''partNumber'') = Some 7
   \<and> putMultipartUploadPart New (Date 2019 1 1 0 0 0) singleUploadGet rejectingHashingReader
        exactReadAll tableAddPart ''bucket'' ''object'' ''upload-1'' emptyWriter partPut []
      = (None, addHeader ''ETag'' ''\"part\"'' emptyWriter, [(7, bytesOf ''hello'')])
   \<and> \<not> (\<exists>e. fst (putMultipartUploadPart New (Date 2019 1 1 0 0 0) singleUploadGet
                    rejectingHashingReader exactReadAll tableAddPart ''bucket'' ''object''
                    ''upload-1'' emptyWriter partPut []) = Some e
             \<and> ErrorCode_of e = Some ErrInvalidPart)
   \<and> ParseInt (Values_Get (Query badPartPut) ''partNumber'') = Some 10001
   \<and> putMultipartUploadPart New (Date 2019 1 1 0 0 0) singleUploadGet rejectingHashingReader
        exactReadAll tableAddPart ''bucket'' ''object'' ''upload-1'' emptyWriter badPartPut []
      = (Some (Code ErrInvalidPart), emptyWriter, [])"
proof -
  have get: "\<forall>e. singleUploadGet ''bucket'' ''object'' ''upload-1'' [] = Inl e
               \<longrightarrow> ErrorCode_of e \<noteq> Some ErrInvalidPart"
    by (simp add: singleUploadGet_def)
  have nhr: "\<forall>md5 e. rejectingHashingReader (Body r) md5 = Inl e
               \<longrightarrow> ErrorCode_of e \<noteq> Some ErrInvalidPart" for r :: "byte list Request"
    by (auto simp: rejectingHashingReader_def)
  have rd: "\<forall>rdr sz e. exactReadAll rdr sz = Inl e \<longrightarrow> ErrorCode_of e \<noteq> Some ErrInvalidPart"
    by (auto simp: exactReadAll_def split: if_splits)
  have add: "\<forall>up k body e u1. 1 \<le> k \<and> k \<le> 10000
               \<and> tableAddPart up k (Date 2019 1 1 0 0 0) body [] = (Inl e, u1)
               \<longrightarrow> ErrorCode_of e \<noteq> Some ErrInvalidPart"
    by (auto simp: tableAddPart_def split: if_splits)
  have p1: "ParseInt (Values_Get (Query partPut) ''partNumber'') = Some 7"
    by code_simp
  have p2: "ParseInt (Values_Get (Query badPartPut) ''partNumber'') = Some 10001"
    by code_simp
  have ok: "putMultipartUploadPart New (Date 2019 1 1 0 0 0) singleUploadGet rejectingHashingReader
        exactReadAll tableAddPart ''bucket'' ''object'' ''upload-1'' emptyWriter partPut []
      = (None, addHeader ''ETag'' ''\"part\"'' emptyWriter, [(7, bytesOf ''hello'')])"
    by code_simp
  note t1 = putMultipartUploadPart_InvalidPart [where Get = singleUploadGet and bucket = "''bucket''"
      and object = "''object''" and uploadID = "''upload-1''" and u = "[]"
      and newHashingReader = rejectingHashingReader and ReadAll = exactReadAll
      and AddPart = tableAddPart and now = "Date 2019 1 1 0 0 0" and g = New
      and w = emptyWriter, OF get nhr rd add]
  have a: "\<not> (\<exists>e. fst (putMultipartUploadPart New (Date 2019 1 1 0 0 0) singleUploadGet
                    rejectingHashingReader exactReadAll tableAddPart ''bucket'' ''object''
                    ''upload-1'' emptyWriter partPut []) = Some e
             \<and> ErrorCode_of e = Some ErrInvalidPart)"
    using t1 [of partPut] by (simp add: p1)
  have b: "putMultipartUploadPart New (Date 2019 1 1 0 0 0) singleUploadGet rejectingHashingReader
        exactReadAll tableAddPart ''bucket'' ''object'' ''upload-1'' emptyWriter badPartPut []
      = (Some (Code ErrInvalidPart), emptyWriter, [])"
    using t1 [of badPartPut] by (simp add: p2)
  from p1 ok a p2 b show ?thesis
    by blast
qed

text \<open>
  Claim C10. For every put-part request that passes the validations and whose body
  is read successfully, if the number of bytes read differs from the request's
  \<open>ContentLength\<close>, the handler returns \<open>IncompleteBody\<close>; \<open>AddPart\<close> is not called and
  the uploader's state, with its parts tables, is unchanged.
\<close>

theorem putMultipartUploadPart_IncompleteBody:
  assumes "ParseInt (Values_Get (Query r) ''partNumber'') = Some n"
    and "1 \<le> sint n" and "sint n \<le> 10000"
    and "ParseInt (Header_Get (Header r) ''Content-Length'') = Some sz" and "0 < sint sz"
    and "Get bucket object uploadID u = Inr upload"
    and "(if integrityCheck g \<and> Header_Get (Header r) ''Content-MD5'' \<noteq> []
          then newHashingReader (Body r) (Header_Get (Header r) ''Content-MD5'')
          else Inr (Body r)) = Inr rdr"
    and "ReadAll rdr sz = Inr body"
    and "int (length body) \<noteq> sint (ContentLength r)"
  shows "putMultipartUploadPart g now Get newHashingReader ReadAll AddPart
           bucket object uploadID w r u = (Some (Code ErrIncompleteBody), w, u)"
proof -
  have v: "\<not> (n \<le>s 0 \<or> MaxUploadPartNumber <s n)"
    using assms(2,3) by (simp add: MaxUploadPartNumber_def word_sle_eq word_sless_alt)
  have c: "\<not> sz \<le>s 0"
    using assms(5) by (simp add: word_sle_eq)
  show ?thesis
    unfolding putMultipartUploadPart_def
    using assms(1,4,6,7,8,9) v c by simp
qed

theorem putMultipartUploadPart_IncompleteBody_witness:
  "ParseInt (Values_Get (Query shortPartPut) ''partNumber'') = Some 7
   \<and> ParseInt (Header_Get (Header shortPartPut) ''Content-Length'') = Some 5
   \<and> singleUploadGet ''bucket'' ''object'' ''upload-1'' [(1, bytesOf ''first'')] = Inr ()
   \<and> exactReadAll (Body shortPartPut) 5 = Inr (bytesOf ''hello'')
   \<and> int (length (bytesOf ''hello'')) \<noteq> sint (ContentLength shortPartPut)
   \<and> putMultipartUploadPart New (Date 2019 1 1 0 0 0) singleUploadGet rejectingHashingReader
        exactReadAll tableAddPart ''bucket'' ''object'' ''upload-1'' emptyWriter shortPartPut
        [(1, bytesOf ''first'')]
      = (Some (Code ErrIncompleteBody), emptyWriter, [(1, bytesOf ''first'')])"
proof -
  have p: "ParseInt (Values_Get (Query shortPartPut) ''partNumber'') = Some 7"
    by code_simp
  have r: "1 \<le> sint (7 :: int64)" "sint (7 :: int64) \<le> 10000"
    by simp_all
  have c: "ParseInt (Header_Get (Header shortPartPut) ''Content-Length'') = Some 5"
    by code_simp
  have z: "0 < sint (5 :: int64)"
    by simp
  have g: "singleUploadGet ''bucket'' ''object'' ''upload-1'' [(1, bytesOf ''first'')] = Inr ()"
    by code_simp
  have h: "(if integrityCheck New \<and> Header_Get (Header shortPartPut) ''Content-MD5'' \<noteq> []
            then rejectingHashingReader (Body shortPartPut)
                   (Header_Get (Header shortPartPut) ''Content-MD5'')
            else Inr (Body shortPartPut)) = Inr (Body shortPartPut)"
    by code_simp
  have b: "exactReadAll (Body shortPartPut) 5 = Inr (bytesOf ''hello'')"
    by code_simp
  have l: "int (length (bytesOf ''hello'')) \<noteq> sint (ContentLength shortPartPut)"
    by code_simp
  from putMultipartUploadPart_IncompleteBody [where r = shortPartPut and n = 7 and sz = 5
      and Get = singleUploadGet and bucket = "''bucket''" and object = "''object''"
      and uploadID = "''upload-1''" and u = "[(1, bytesOf ''first'')]" and upload = "()"
      and g = New and newHashingReader = rejectingHashingReader and rdr = "Body shortPartPut"
      and ReadAll = exactReadAll and body = "bytesOf ''hello''"
      and now = "Date 2019 1 1 0 0 0" and AddPart = tableAddPart and w = emptyWriter,
      OF p r c z g h b l]
  have "putMultipartUploadPart New (Date 2019 1 1 0 0 0) singleUploadGet rejectingHashingReader
        exactReadAll tableAddPart ''bucket'' ''object'' ''upload-1'' emptyWriter shortPartPut
        [(1, bytesOf ''first'')]
      = (Some (Code ErrIncompleteBody), emptyWriter, [(1, bytesOf ''first'')])" .
  with p c g b l show ?thesis
    by blast
qed

text \<open>
  The browser upload applies no size check: an empty file is stored, with the same
  constant ETag.
\<close>

lemma createObjectBrowserUpload_empty_file:
  "createObjectBrowserUpload utcFormat New (Date 2019 1 1 0 0 0) recordingPutObject ''bucket''
     emptyWriter
     (Some \<lparr>FormValue = [(''key'', [''empty''])],
            FormFile = [(''file'', [\<lparr>Open = Inr [], FileSize = 0\<rparr>])]\<rparr>) []
   = (None,
      setHeader ''Server'' ''AmazonS3''
        (setHeader ''ETag'' ''\"fbacf535f27731c9771645a39863328\"''
          (setHeader ''x-amz-request-id'' ''0A49CE4060975EAC''
            (setHeader ''x-amz-id-2''
               ''LriYPLdmOdAiIfgSm/F1YsViT1LW94/xUQxMsF7xiEb1a0wiIOIxl+zbwZ163pt7''
              (setHeader ''Access-Control-Allow-Origin'' ''*'' emptyWriter)))),
      [(''bucket'', ''empty'', [])])"
  by code_simp

lemma headObject_ETag:
  assumes "HeadObject bucket object = Inr (Some obj)"
  shows "Header_Get (RespHeader (snd (headObject fmt now HeadObject bucket object w r))) ''ETag''
           = ''\"'' @ hex_EncodeToString (Hash obj) @ ''\"''"
  using assms
  by (simp add: headObject_def Let_def setHeader_def Header_Get_def Header_Set_def canon_keys
        update_conv')

end
